theory Spec2Isabelle
  imports Main
begin

section \<open>Python values and exceptions\<close>

text \<open>
  The values that travel through \<^verbatim>\<open>api.py\<close> are parsed JSON documents and the
  Python objects handed to the cache. \<open>JNull\<close> is Python's \<^verbatim>\<open>None\<close>: the client
  returns it for "no data", and a JSON \<^verbatim>\<open>null\<close> body parses to the same object.
  A dict is an association list read with \<open>map_of\<close>. A number is carried as an
  integer: the module stores and returns numbers and never computes with one.
\<close>

datatype json =
    JNull
  | JBool bool
  | JNum int
  | JStr string
  | JArr "json list"
  | JObj "(string \<times> json) list"

text \<open>
  \<open>AuthError\<close>, \<open>ApiError\<close> and \<open>DataError\<close> are the exception classes of the module.
  The others are raised by the interpreter and by aiohttp: \<open>TypeError\<close> and
  \<open>KeyError\<close> by \<^verbatim>\<open>in\<close> and subscription, \<open>ClientError\<close> by a failed connection or
  a body that cannot be read, \<open>DecodeError\<close> by \<^verbatim>\<open>resp.json()\<close> on a body that is not
  JSON, \<open>UnicodeDecodeError\<close> by \<^verbatim>\<open>resp.text()\<close> and \<^verbatim>\<open>resp.json()\<close> on bytes that do
  not decode in the charset of the response.
\<close>

datatype error =
    AuthError
  | ApiError
  | DataError
  | TypeError
  | KeyError
  | ClientError
  | DecodeError
  | UnicodeDecodeError

text \<open>Python's \<^verbatim>\<open>p in s\<close> on two strings: \<open>p\<close> occurs in \<open>s\<close> as a contiguous run.\<close>

fun str_contains :: "string \<Rightarrow> string \<Rightarrow> bool" where
  "str_contains p [] = (p = [])"
| "str_contains p (c # s) = (take (length p) (c # s) = p \<or> str_contains p s)"

text \<open>
  \<^verbatim>\<open>key in data\<close> for a string key: membership among the keys of a dict, among the
  elements of a list, as a substring of a string; every other value is not iterable.
\<close>

fun py_contains :: "string \<Rightarrow> json \<Rightarrow> error + bool" where
  "py_contains key (JObj kvs) = Inr (key \<in> set (map fst kvs))"
| "py_contains key (JArr xs) = Inr (JStr key \<in> set xs)"
| "py_contains key (JStr s) = Inr (str_contains key s)"
| "py_contains key JNull = Inl TypeError"
| "py_contains key (JBool b) = Inl TypeError"
| "py_contains key (JNum n) = Inl TypeError"

text \<open>
  \<^verbatim>\<open>data[key]\<close> for a string key: a dict yields the value or raises KeyError; lists and
  strings want integer indices, and the remaining values are not subscriptable.
\<close>

fun py_getitem :: "json \<Rightarrow> string \<Rightarrow> error + json" where
  "py_getitem (JObj kvs) key = (case map_of kvs key of None \<Rightarrow> Inl KeyError | Some v \<Rightarrow> Inr v)"
| "py_getitem (JArr xs) key = Inl TypeError"
| "py_getitem (JStr s) key = Inl TypeError"
| "py_getitem JNull key = Inl TypeError"
| "py_getitem (JBool b) key = Inl TypeError"
| "py_getitem (JNum n) key = Inl TypeError"

section \<open>Constants of const.py\<close>

text \<open>
  \<^verbatim>\<open>const.py\<close> is imported by \<^verbatim>\<open>api.py\<close> but its values are not part of the sources at
  hand, so the constants are a parameter of every function that reads one.
\<close>

record const =
  API_SYS_PARAMS_URI :: string
  API_REG_PARAMS_URI :: string
  API_REG_PARAMS_DATA_URI :: string
  API_EDITABLE_PARAMS_LIMITS_URI :: string
  API_EDITABLE_PARAMS_LIMITS_DATA :: string
  API_REG_PARAMS_DATA_PARAM_DATA :: string
  API_REG_PARAMS_PARAM_DATA :: string
  API_SYS_PARAMS_PARAM_UID :: string
  API_SYS_PARAMS_PARAM_MODEL_ID :: string
  API_SYS_PARAMS_PARAM_SW_REV :: string
  API_SYS_PARAMS_PARAM_HW_VER :: string
  EDITABLE_PARAMS_MAPPING_TABLE :: "(string \<times> string) list"

text \<open>One assignment of the constants, on which the model is run in concrete examples.\<close>

definition sample_const :: const where
  "sample_const =
     \<lparr>API_SYS_PARAMS_URI = ''sysParams'',
      API_REG_PARAMS_URI = ''regParams'',
      API_REG_PARAMS_DATA_URI = ''regParamsData'',
      API_EDITABLE_PARAMS_LIMITS_URI = ''rmCurrentDataParamsEdits'',
      API_EDITABLE_PARAMS_LIMITS_DATA = ''data'',
      API_REG_PARAMS_DATA_PARAM_DATA = ''data'',
      API_REG_PARAMS_PARAM_DATA = ''curr'',
      API_SYS_PARAMS_PARAM_UID = ''uid'',
      API_SYS_PARAMS_PARAM_MODEL_ID = ''controllerID'',
      API_SYS_PARAMS_PARAM_SW_REV = ''softVer'',
      API_SYS_PARAMS_PARAM_HW_VER = ''routerType'',
      EDITABLE_PARAMS_MAPPING_TABLE = [(''tempCOSet'', ''1280''), (''tempCWUSet'', ''1281'')]\<rparr>"

text \<open>\<^verbatim>\<open>map_param\<close>: the mapped name, or \<^verbatim>\<open>None\<close> for a name outside the table.\<close>

definition map_param :: "const \<Rightarrow> string \<Rightarrow> string option" where
  "map_param K param_name =
     (if param_name \<notin> set (map fst (EDITABLE_PARAMS_MAPPING_TABLE K)) then None
      else map_of (EDITABLE_PARAMS_MAPPING_TABLE K) param_name)"

section \<open>The device\<close>

text \<open>
  What one pass through the \<^verbatim>\<open>try\<close> block of \<^verbatim>\<open>_get\<close> can come to: a
  \<^verbatim>\<open>TimeoutError\<close> is raised in it (by the request, which has a timeout of 10, or while
  the body is read), the connection fails with an aiohttp error, or a response arrives
  with a status and a body. The device is a function of the number of requests issued
  before this one and of the URL requested.

  A body is read in two places: \<^verbatim>\<open>resp.json()\<close> parses it when the status is 200, and
  \<^verbatim>\<open>resp.text()\<close> reads it for the log line when the status is neither 401 nor 200.
  \<open>Json j\<close> is a body that decodes and parses to \<open>j\<close>; \<open>Garbled\<close> decodes as text
  but is no JSON for \<^verbatim>\<open>resp.json()\<close>; \<open>Undecodable\<close> are bytes that do not decode, on
  which both calls raise \<^verbatim>\<open>UnicodeDecodeError\<close>; \<open>Unreadable\<close> is a body whose reading
  fails with an \<^verbatim>\<open>aiohttp.ClientError\<close>, which the handler around \<^verbatim>\<open>resp.text()\<close>
  catches and nothing around \<^verbatim>\<open>resp.json()\<close> does.
\<close>

datatype body = Json json | Garbled | Undecodable | Unreadable

datatype attempt = TimedOut | ConnFailed | Reply nat body

type_synonym device = "nat \<Rightarrow> string \<Rightarrow> attempt"

section \<open>EconetClient\<close>

text \<open>
  The attributes of the client, together with what it has done to the world through its
  session: \<open>requests\<close> are the URLs of the GET requests issued so far, in order,
  \<open>slept\<close> the time units spent in \<^verbatim>\<open>asyncio.sleep\<close>, and \<open>fetched\<close> the registries
  \<^verbatim>\<open>fetch_sys_params\<close> was called for (its first debug line).
\<close>

record EconetClient =
  host :: string
  auth :: "string \<times> string"
  client_model_id :: string
  client_sw_revision :: string
  requests :: "string list"
  slept :: nat
  fetched :: "string list"

definition EconetClient_init :: "string \<Rightarrow> string \<Rightarrow> string \<Rightarrow> EconetClient" where
  "EconetClient_init host0 username password =
     (let proto = [''http://'', ''https://''];
          not_contains = list_all (\<lambda>p. \<not> str_contains p host0) proto;
          host1 = (if not_contains then ''http://'' @ host0 else host0)
      in \<lparr>host = host1,
          auth = (username, password),
          client_model_id = ''default-model-id'',
          client_sw_revision = ''default-sw-revision'',
          requests = [],
          slept = 0,
          fetched = []\<rparr>)"

definition max_attempts :: nat where
  "max_attempts = 5"

text \<open>
  The \<^verbatim>\<open>while\<close> loop of \<^verbatim>\<open>_get\<close>. Only \<^verbatim>\<open>TimeoutError\<close> is caught: it sleeps one unit and
  falls through to \<^verbatim>\<open>attempt += 1\<close>. Every other outcome leaves the loop at once. In
  the branch for a status other than 200, the inner handler catches the client errors of
  \<^verbatim>\<open>resp.text()\<close> and nothing else, so bytes that do not decode raise out of \<^verbatim>\<open>_get\<close>.
\<close>

function get_loop :: "device \<Rightarrow> string \<Rightarrow> nat \<Rightarrow> EconetClient \<Rightarrow> (error + json) \<times> EconetClient" where
  "get_loop dev url attempt c =
     (if attempt \<le> max_attempts then
        (let c1 = c\<lparr>requests := requests c @ [url]\<rparr> in
         case dev (length (requests c)) url of
           TimedOut \<Rightarrow> get_loop dev url (attempt + 1) (c1\<lparr>slept := slept c1 + 1\<rparr>)
         | ConnFailed \<Rightarrow> (Inl ClientError, c1)
         | Reply status b \<Rightarrow>
             if status = 401 then (Inl AuthError, c1)
             else if status \<noteq> 200 then
               (case b of
                  Undecodable \<Rightarrow> (Inl UnicodeDecodeError, c1)
                | _ \<Rightarrow> (Inr JNull, c1))
             else
               (case b of
                  Json data \<Rightarrow> (Inr data, c1)
                | Garbled \<Rightarrow> (Inl DecodeError, c1)
                | Undecodable \<Rightarrow> (Inl UnicodeDecodeError, c1)
                | Unreadable \<Rightarrow> (Inl ClientError, c1)))
      else (Inr JNull, c))"
  by pat_completeness auto
termination
  by (relation "measure (\<lambda>(dev, url, attempt, c). Suc max_attempts - attempt)") auto

declare get_loop.simps [simp del]

definition EconetClient_get :: "device \<Rightarrow> string \<Rightarrow> EconetClient \<Rightarrow> (error + json) \<times> EconetClient" where
  "EconetClient_get dev url c = get_loop dev url 1 c"

text \<open>
  \<^verbatim>\<open>set_param\<close> of the client puts key and value into the query string with an
  f-string. \<open>str_of\<close> is Python's \<^verbatim>\<open>str\<close> on the value, a parameter of the model.
\<close>

definition EconetClient_set_param ::
  "device \<Rightarrow> (json \<Rightarrow> string) \<Rightarrow> string \<Rightarrow> json \<Rightarrow> EconetClient \<Rightarrow> (error + json) \<times> EconetClient" where
  "EconetClient_set_param dev str_of key v c =
     EconetClient_get dev
       (host c @ ''/econet/rmCurrNewParam?newParamKey='' @ key @ ''&newParamValue='' @ str_of v) c"

definition EconetClient_fetch_sys_params ::
  "device \<Rightarrow> string \<Rightarrow> EconetClient \<Rightarrow> (error + json) \<times> EconetClient" where
  "EconetClient_fetch_sys_params dev reg c =
     EconetClient_get dev (host c @ ''/econet/'' @ reg) (c\<lparr>fetched := fetched c @ [reg]\<rparr>)"

section \<open>MemCache\<close>

text \<open>
  Modelled from the spec: the class \<^verbatim>\<open>MemCache\<close> of \<^verbatim>\<open>mem_cache.py\<close>, which is
  imported by \<^verbatim>\<open>api.py\<close> but is not among the sources. The spec gives its contract as
  \<^verbatim>\<open>exists(key) -> bool\<close>, \<^verbatim>\<open>get(key) -> value\<close>, \<^verbatim>\<open>set(key, value) -> void\<close> over
  entries "key to last-known value; no eviction, no TTL". What \<^verbatim>\<open>get\<close> yields for a key
  that was never set is not said there; \<open>JNull\<close> is taken, and \<^verbatim>\<open>api.py\<close> reads a key
  only after \<^verbatim>\<open>exists\<close> or \<^verbatim>\<open>set\<close>.
\<close>

type_synonym MemCache = "string \<rightharpoonup> json"

definition MemCache_exists :: "MemCache \<Rightarrow> string \<Rightarrow> bool" where
  "MemCache_exists m key = (m key \<noteq> None)"

definition MemCache_get :: "MemCache \<Rightarrow> string \<Rightarrow> json" where
  "MemCache_get m key = (case m key of None \<Rightarrow> JNull | Some v \<Rightarrow> v)"

definition MemCache_set :: "MemCache \<Rightarrow> string \<Rightarrow> json \<Rightarrow> MemCache" where
  "MemCache_set m key v = m(key \<mapsto> v)"

section \<open>Econet300Api\<close>

datatype Limits = Limits (min_v: json) (max_v: json)

record Econet300Api =
  client :: EconetClient
  cache :: MemCache
  uid :: json
  model_id :: json
  sw_revision :: json
  hw_version :: json

text \<open>The constructor \<^verbatim>\<open>__init__\<close> of the facade: the four placeholder strings.\<close>

definition Econet300Api_new :: "EconetClient \<Rightarrow> MemCache \<Rightarrow> Econet300Api" where
  "Econet300Api_new c m =
     \<lparr>client = c,
      cache = m,
      uid = JStr ''default-uid'',
      model_id = JStr ''default-model-id'',
      sw_revision = JStr ''default-sw-revision'',
      hw_version = JStr ''default-hw-version''\<rparr>"

text \<open>
  One of the four \<^verbatim>\<open>if KEY not in sys_params: warn else: self.field = sys_params[KEY]\<close>
  blocks of \<^verbatim>\<open>init\<close>, with the attribute assigned as \<open>upd\<close>.
\<close>

definition init_field ::
  "string \<Rightarrow> json \<Rightarrow> (json \<Rightarrow> Econet300Api \<Rightarrow> Econet300Api) \<Rightarrow> Econet300Api
     \<Rightarrow> (error + unit) \<times> Econet300Api" where
  "init_field key sys_params upd a =
     (case py_contains key sys_params of
        Inl e \<Rightarrow> (Inl e, a)
      | Inr present \<Rightarrow>
          if \<not> present then (Inr (), a)
          else (case py_getitem sys_params key of
                  Inl e \<Rightarrow> (Inl e, a)
                | Inr v \<Rightarrow> (Inr (), upd v a)))"

definition Econet300Api_init :: "const \<Rightarrow> device \<Rightarrow> Econet300Api \<Rightarrow> (error + unit) \<times> Econet300Api" where
  "Econet300Api_init K dev a =
     (case EconetClient_fetch_sys_params dev (API_SYS_PARAMS_URI K) (client a) of
        (Inl e, c') \<Rightarrow> (Inl e, a\<lparr>client := c'\<rparr>)
      | (Inr sys_params, c') \<Rightarrow>
          let a0 = a\<lparr>client := c'\<rparr> in
          if sys_params = JNull then (Inr (), a0)
          else
            (case init_field (API_SYS_PARAMS_PARAM_UID K) sys_params (\<lambda>v s. s\<lparr>uid := v\<rparr>) a0 of
               (Inl e, a1) \<Rightarrow> (Inl e, a1)
             | (Inr _, a1) \<Rightarrow>
            (case init_field (API_SYS_PARAMS_PARAM_MODEL_ID K) sys_params (\<lambda>v s. s\<lparr>model_id := v\<rparr>) a1 of
               (Inl e, a2) \<Rightarrow> (Inl e, a2)
             | (Inr _, a2) \<Rightarrow>
            (case init_field (API_SYS_PARAMS_PARAM_SW_REV K) sys_params (\<lambda>v s. s\<lparr>sw_revision := v\<rparr>) a2 of
               (Inl e, a3) \<Rightarrow> (Inl e, a3)
             | (Inr _, a3) \<Rightarrow>
             init_field (API_SYS_PARAMS_PARAM_HW_VER K) sys_params (\<lambda>v s. s\<lparr>hw_version := v\<rparr>) a3))))"

definition Econet300Api_set_param ::
  "device \<Rightarrow> (json \<Rightarrow> string) \<Rightarrow> string option \<Rightarrow> json \<Rightarrow> Econet300Api
     \<Rightarrow> (error + bool) \<times> Econet300Api" where
  "Econet300Api_set_param dev str_of param v a =
     (case param of
        None \<Rightarrow> (Inr False, a)
      | Some p \<Rightarrow>
          (case EconetClient_set_param dev str_of p v (client a) of
             (Inl e, c') \<Rightarrow> (Inl e, a\<lparr>client := c'\<rparr>)
           | (Inr data, c') \<Rightarrow>
               let a1 = a\<lparr>client := c'\<rparr> in
               if data = JNull then (Inr False, a1)
               else
                 (case py_contains ''result'' data of
                    Inl e \<Rightarrow> (Inl e, a1)
                  | Inr present \<Rightarrow>
                      if \<not> present then (Inr False, a1)
                      else
                        (case py_getitem data ''result'' of
                           Inl e \<Rightarrow> (Inl e, a1)
                         | Inr r \<Rightarrow>
                             if r \<noteq> JStr ''OK'' then (Inr False, a1)
                             else (Inr True, a1\<lparr>cache := MemCache_set (cache a1) p v\<rparr>)))))"

definition Econet300Api_fetch_reg_key ::
  "device \<Rightarrow> string \<Rightarrow> string option \<Rightarrow> Econet300Api \<Rightarrow> (error + json) \<times> Econet300Api" where
  "Econet300Api_fetch_reg_key dev reg data_key a =
     (case EconetClient_fetch_sys_params dev reg (client a) of
        (Inl e, c') \<Rightarrow> (Inl e, a\<lparr>client := c'\<rparr>)
      | (Inr data, c') \<Rightarrow>
          let a1 = a\<lparr>client := c'\<rparr> in
          if data = JNull then (Inl DataError, a1)
          else
            (case data_key of
               None \<Rightarrow> (Inr data, a1)
             | Some k \<Rightarrow>
                 (case py_contains k data of
                    Inl e \<Rightarrow> (Inl e, a1)
                  | Inr present \<Rightarrow>
                      if \<not> present then (Inl DataError, a1)
                      else (case py_getitem data k of
                              Inl e \<Rightarrow> (Inl e, a1)
                            | Inr v \<Rightarrow> (Inr v, a1)))))"

text \<open>\<^verbatim>\<open>_fetch_reg_names\<close> repeats \<^verbatim>\<open>_fetch_reg_key\<close> with one more debug line.\<close>

definition Econet300Api_fetch_reg_names ::
  "device \<Rightarrow> string \<Rightarrow> string option \<Rightarrow> Econet300Api \<Rightarrow> (error + json) \<times> Econet300Api" where
  "Econet300Api_fetch_reg_names dev reg data_key a =
     (case EconetClient_fetch_sys_params dev reg (client a) of
        (Inl e, c') \<Rightarrow> (Inl e, a\<lparr>client := c'\<rparr>)
      | (Inr data, c') \<Rightarrow>
          let a1 = a\<lparr>client := c'\<rparr> in
          if data = JNull then (Inl DataError, a1)
          else
            (case data_key of
               None \<Rightarrow> (Inr data, a1)
             | Some k \<Rightarrow>
                 (case py_contains k data of
                    Inl e \<Rightarrow> (Inl e, a1)
                  | Inr present \<Rightarrow>
                      if \<not> present then (Inl DataError, a1)
                      else (case py_getitem data k of
                              Inl e \<Rightarrow> (Inl e, a1)
                            | Inr v \<Rightarrow> (Inr v, a1)))))"

text \<open>
  The first statement of \<^verbatim>\<open>get_param_limits\<close> and of \<^verbatim>\<open>fetch_param_edit_data\<close>: fetch
  the limits table unless the cache has it. A raise inside the fetch leaves the method.
\<close>

definition ensure_limits :: "const \<Rightarrow> device \<Rightarrow> Econet300Api \<Rightarrow> (error + unit) \<times> Econet300Api" where
  "ensure_limits K dev a =
     (if \<not> MemCache_exists (cache a) (API_EDITABLE_PARAMS_LIMITS_DATA K) then
        (case Econet300Api_fetch_reg_key dev (API_EDITABLE_PARAMS_LIMITS_URI K)
                (Some (API_EDITABLE_PARAMS_LIMITS_DATA K)) a of
           (Inl e, a1) \<Rightarrow> (Inl e, a1)
         | (Inr limits, a1) \<Rightarrow>
             (Inr (), a1\<lparr>cache := MemCache_set (cache a1) (API_EDITABLE_PARAMS_LIMITS_DATA K) limits\<rparr>))
      else (Inr (), a))"

definition Econet300Api_get_param_limits ::
  "const \<Rightarrow> device \<Rightarrow> string option \<Rightarrow> Econet300Api \<Rightarrow> (error + Limits option) \<times> Econet300Api" where
  "Econet300Api_get_param_limits K dev param a =
     (case ensure_limits K dev a of
        (Inl e, a1) \<Rightarrow> (Inl e, a1)
      | (Inr _, a1) \<Rightarrow>
          let limits = MemCache_get (cache a1) (API_EDITABLE_PARAMS_LIMITS_DATA K) in
          (case param of
             None \<Rightarrow> (Inr None, a1)
           | Some p \<Rightarrow>
               (case py_contains p limits of
                  Inl e \<Rightarrow> (Inl e, a1)
                | Inr present \<Rightarrow>
                    if \<not> present then (Inr None, a1)
                    else
                      (case py_getitem limits p of
                         Inl e \<Rightarrow> (Inl e, a1)
                       | Inr curr_limits \<Rightarrow>
                           (case py_getitem curr_limits ''min'' of
                              Inl e \<Rightarrow> (Inl e, a1)
                            | Inr mn \<Rightarrow>
                                (case py_getitem curr_limits ''max'' of
                                   Inl e \<Rightarrow> (Inl e, a1)
                                 | Inr mx \<Rightarrow> (Inr (Some (Limits mn mx)), a1)))))))"

text \<open>\<^verbatim>\<open>fetch_reg_params_data\<close> catches \<^verbatim>\<open>DataError\<close>, and only that, and returns \<^verbatim>\<open>{}\<close>.\<close>

definition Econet300Api_fetch_reg_params_data ::
  "const \<Rightarrow> device \<Rightarrow> Econet300Api \<Rightarrow> (error + json) \<times> Econet300Api" where
  "Econet300Api_fetch_reg_params_data K dev a =
     (case Econet300Api_fetch_reg_key dev (API_REG_PARAMS_DATA_URI K)
             (Some (API_REG_PARAMS_DATA_PARAM_DATA K)) a of
        (Inl e, a1) \<Rightarrow> if e = DataError then (Inr (JObj []), a1) else (Inl e, a1)
      | (Inr regParamsData, a1) \<Rightarrow> (Inr regParamsData, a1))"

definition Econet300Api_fetch_param_edit_data ::
  "const \<Rightarrow> device \<Rightarrow> Econet300Api \<Rightarrow> (error + json) \<times> Econet300Api" where
  "Econet300Api_fetch_param_edit_data K dev a =
     (case ensure_limits K dev a of
        (Inl e, a1) \<Rightarrow> (Inl e, a1)
      | (Inr _, a1) \<Rightarrow> (Inr (MemCache_get (cache a1) (API_EDITABLE_PARAMS_LIMITS_DATA K)), a1))"

definition Econet300Api_fetch_sys_params ::
  "const \<Rightarrow> device \<Rightarrow> Econet300Api \<Rightarrow> (error + json) \<times> Econet300Api" where
  "Econet300Api_fetch_sys_params K dev a =
     (case EconetClient_fetch_sys_params dev (API_SYS_PARAMS_URI K) (client a) of
        (r, c') \<Rightarrow> (r, a\<lparr>client := c'\<rparr>))"

definition Econet300Api_fetch_reg_params ::
  "const \<Rightarrow> device \<Rightarrow> Econet300Api \<Rightarrow> (error + json) \<times> Econet300Api" where
  "Econet300Api_fetch_reg_params K dev a =
     Econet300Api_fetch_reg_names dev (API_REG_PARAMS_URI K) (Some (API_REG_PARAMS_PARAM_DATA K)) a"

section \<open>Concrete devices and a concrete client\<close>

text \<open>
  Three devices to run the model on: one that never answers in time, one that answers
  every request with the same status and a body that is not JSON, and one that answers
  every request with status 200 and the same JSON document.
\<close>

definition dev_timeout :: device where
  "dev_timeout n url = TimedOut"

definition dev_status :: "nat \<Rightarrow> device" where
  "dev_status st n url = Reply st Garbled"

definition dev_json :: "json \<Rightarrow> device" where
  "dev_json j n url = Reply 200 (Json j)"

text \<open>
  Python's \<^verbatim>\<open>str\<close> as far as the concrete runs need it: a string renders as itself.
\<close>

definition str_of_sample :: "json \<Rightarrow> string" where
  "str_of_sample v = (case v of JStr s \<Rightarrow> s | _ \<Rightarrow> [])"

definition client0 :: EconetClient where
  "client0 = EconetClient_init ''boiler'' ''user'' ''secret''"

definition api0 :: Econet300Api where
  "api0 = Econet300Api_new client0 Map.empty"

text \<open>
  Two documents a device may serve: system parameters that lack the hardware version,
  and the envelope of the editable limits with one parameter in its table.
\<close>

definition sys_params_no_hw :: json where
  "sys_params_no_hw =
     JObj [(''uid'', JStr ''A1B2C3''), (''controllerID'', JStr ''ecoMAX810P-L''),
           (''softVer'', JStr ''3.2.3811'')]"

definition limits_envelope :: json where
  "limits_envelope =
     JObj [(''data'', JObj [(''1280'', JObj [(''min'', JNum 20), (''max'', JNum 80)])])]"

text \<open>The envelope of the register parameters, with the current values under its key.\<close>

definition reg_params_envelope :: json where
  "reg_params_envelope = JObj [(''curr'', JObj [(''tempCO'', JNum 61)])]"

section \<open>Vocabulary of the properties\<close>

text \<open>Python's \<^verbatim>\<open>s.startswith(p)\<close>: the way a host string carries a scheme.\<close>

definition startswith :: "string \<Rightarrow> string \<Rightarrow> bool" where
  "startswith s p = (take (length p) s = p)"

text \<open>
  The operations of the facade as data, and the state each leaves behind, whether it
  returns or raises.
\<close>

datatype op =
    Init
  | SetParam "string option" json
  | GetParamLimits "string option"
  | FetchRegParamsData
  | FetchParamEditData
  | FetchSysParams
  | FetchRegParams

fun run_op :: "const \<Rightarrow> device \<Rightarrow> (json \<Rightarrow> string) \<Rightarrow> op \<Rightarrow> Econet300Api \<Rightarrow> Econet300Api" where
  "run_op K dev str_of Init a = snd (Econet300Api_init K dev a)"
| "run_op K dev str_of (SetParam param v) a = snd (Econet300Api_set_param dev str_of param v a)"
| "run_op K dev str_of (GetParamLimits param) a = snd (Econet300Api_get_param_limits K dev param a)"
| "run_op K dev str_of FetchRegParamsData a = snd (Econet300Api_fetch_reg_params_data K dev a)"
| "run_op K dev str_of FetchParamEditData a = snd (Econet300Api_fetch_param_edit_data K dev a)"
| "run_op K dev str_of FetchSysParams a = snd (Econet300Api_fetch_sys_params K dev a)"
| "run_op K dev str_of FetchRegParams a = snd (Econet300Api_fetch_reg_params K dev a)"

text \<open>
  The device has confirmed a write when the client's \<^verbatim>\<open>set_param\<close> returned a JSON
  object whose \<^verbatim>\<open>"result"\<close> is the string \<^verbatim>\<open>"OK"\<close>.
\<close>

fun confirmed :: "error + json \<Rightarrow> bool" where
  "confirmed (Inr (JObj kvs)) = (map_of kvs ''result'' = Some (JStr ''OK''))"
| "confirmed r = False"


text \<open>
  What \<^verbatim>\<open>_fetch_reg_key\<close> and \<^verbatim>\<open>_fetch_reg_names\<close> make of the client's result when they
  are given a key: the statements after the fetch, as one function of that result.
\<close>

fun unwrap :: "string \<Rightarrow> error + json \<Rightarrow> error + json" where
  "unwrap k (Inl e) = Inl e"
| "unwrap k (Inr JNull) = Inl DataError"
| "unwrap k (Inr data) =
     (case py_contains k data of
        Inl e \<Rightarrow> Inl e
      | Inr present \<Rightarrow> if \<not> present then Inl DataError else py_getitem data k)"




section \<open>Substring test\<close>

lemma str_contains_iff: "str_contains p s \<longleftrightarrow> (\<exists>a b. s = a @ p @ b)"
proof (induction s)
  case Nil
  then show ?case by auto
next
  case (Cons c s)
  show ?case
  proof
    assume "str_contains p (c # s)"
    then consider "take (length p) (c # s) = p" | "str_contains p s" by auto
    then show "\<exists>a b. c # s = a @ p @ b"
    proof cases
      case 1
      then have "c # s = [] @ p @ drop (length p) (c # s)"
        by (metis append_Nil append_take_drop_id)
      then show ?thesis by blast
    next
      case 2
      with Cons obtain a b where "s = a @ p @ b" by blast
      then have "c # s = (c # a) @ p @ b" by simp
      then show ?thesis by blast
    qed
  next
    assume "\<exists>a b. c # s = a @ p @ b"
    then obtain a b where ab: "c # s = a @ p @ b" by blast
    show "str_contains p (c # s)"
    proof (cases a)
      case Nil
      with ab have "take (length p) (c # s) = p" by simp
      then show ?thesis by simp
    next
      case (Cons x a')
      with ab have "s = a' @ p @ b" by simp
      with Cons.IH show ?thesis by auto
    qed
  qed
qed

section \<open>The retry loop, one attempt at a time\<close>

lemma get_loop_exhausted:
  "\<not> attempt \<le> max_attempts \<Longrightarrow> get_loop dev url attempt c = (Inr JNull, c)"
  by (subst get_loop.simps) simp

lemma get_loop_timeout:
  "attempt \<le> max_attempts \<Longrightarrow> dev (length (requests c)) url = TimedOut \<Longrightarrow>
   get_loop dev url attempt c =
     get_loop dev url (Suc attempt) (c\<lparr>requests := requests c @ [url], slept := Suc (slept c)\<rparr>)"
  by (subst get_loop.simps) simp

lemma get_loop_conn_failed:
  "attempt \<le> max_attempts \<Longrightarrow> dev (length (requests c)) url = ConnFailed \<Longrightarrow>
   get_loop dev url attempt c = (Inl ClientError, c\<lparr>requests := requests c @ [url]\<rparr>)"
  by (subst get_loop.simps) simp

lemma get_loop_reply:
  "attempt \<le> max_attempts \<Longrightarrow> dev (length (requests c)) url = Reply status b \<Longrightarrow>
   get_loop dev url attempt c =
     (if status = 401 then Inl AuthError
      else if status \<noteq> 200 then
        (case b of Undecodable \<Rightarrow> Inl UnicodeDecodeError | _ \<Rightarrow> Inr JNull)
      else
        (case b of
           Json data \<Rightarrow> Inr data
         | Garbled \<Rightarrow> Inl DecodeError
         | Undecodable \<Rightarrow> Inl UnicodeDecodeError
         | Unreadable \<Rightarrow> Inl ClientError),
      c\<lparr>requests := requests c @ [url]\<rparr>)"
  by (subst get_loop.simps) (simp split: body.splits)

lemma get_loop_frame:
  "host (snd (get_loop dev url n c)) = host c \<and> fetched (snd (get_loop dev url n c)) = fetched c
   \<and> auth (snd (get_loop dev url n c)) = auth c"
proof (induction dev url n c rule: get_loop.induct)
  case (1 dev url attempt c)
  show ?case
  proof (cases "attempt \<le> max_attempts")
    case False
    then show ?thesis by (simp add: get_loop_exhausted)
  next
    case True
    show ?thesis
    proof (cases "dev (length (requests c)) url")
      case TimedOut
      with True 1 show ?thesis by (simp add: get_loop_timeout)
    next
      case ConnFailed
      with True show ?thesis by (simp add: get_loop_conn_failed)
    next
      case (Reply st b)
      with True show ?thesis by (simp add: get_loop_reply)
    qed
  qed
qed

lemma get_loop_requests:
  "attempt \<le> max_attempts \<Longrightarrow>
   \<exists>k. 1 \<le> k \<and> k \<le> Suc max_attempts - attempt \<and>
       requests (snd (get_loop dev url attempt c)) = requests c @ replicate k url"
proof (induction dev url attempt c rule: get_loop.induct)
  case (1 dev url attempt c)
  show ?case
  proof (cases "dev (length (requests c)) url")
    case TimedOut
    let ?c1 = "c\<lparr>requests := requests c @ [url], slept := Suc (slept c)\<rparr>"
    have step: "get_loop dev url attempt c = get_loop dev url (Suc attempt) ?c1"
      using 1(2) TimedOut by (simp add: get_loop_timeout)
    show ?thesis
    proof (cases "Suc attempt \<le> max_attempts")
      case True
      have "\<exists>k. 1 \<le> k \<and> k \<le> Suc max_attempts - (attempt + 1) \<and>
         requests (snd (get_loop dev url (attempt + 1) ?c1)) = requests ?c1 @ replicate k url"
        using 1(1) [OF 1(2) refl TimedOut] True by simp
      then obtain k where k: "1 \<le> k" "k \<le> Suc max_attempts - Suc attempt"
        "requests (snd (get_loop dev url (Suc attempt) ?c1)) = requests ?c1 @ replicate k url"
        by auto
      have "requests (snd (get_loop dev url attempt c)) = requests c @ replicate (Suc k) url"
        using k(3) step by (simp add: replicate_append_same)
      moreover have "1 \<le> Suc k" "Suc k \<le> Suc max_attempts - attempt"
        using k(2) True by auto
      ultimately show ?thesis by blast
    next
      case False
      then have "get_loop dev url attempt c = (Inr JNull, ?c1)"
        using step by (simp add: get_loop_exhausted)
      then have "requests (snd (get_loop dev url attempt c)) = requests c @ replicate 1 url"
        by simp
      moreover have "(1::nat) \<le> Suc max_attempts - attempt" using 1(2) by simp
      ultimately show ?thesis by blast
    qed
  next
    case ConnFailed
    then have "requests (snd (get_loop dev url attempt c)) = requests c @ replicate 1 url"
      using 1(2) by (simp add: get_loop_conn_failed)
    moreover have "(1::nat) \<le> Suc max_attempts - attempt" using 1(2) by simp
    ultimately show ?thesis by blast
  next
    case (Reply st b)
    then have "requests (snd (get_loop dev url attempt c)) = requests c @ replicate 1 url"
      using 1(2) by (simp add: get_loop_reply)
    moreover have "(1::nat) \<le> Suc max_attempts - attempt" using 1(2) by simp
    ultimately show ?thesis by blast
  qed
qed

lemma get_requests:
  "\<exists>k. 1 \<le> k \<and> k \<le> 5 \<and> requests (snd (EconetClient_get dev url c)) = requests c @ replicate k url"
  using get_loop_requests [of 1 dev url c]
  by (simp add: EconetClient_get_def max_attempts_def)

lemma get_frame:
  "host (snd (EconetClient_get dev url c)) = host c"
  "fetched (snd (EconetClient_get dev url c)) = fetched c"
  by (simp_all add: EconetClient_get_def get_loop_frame)

lemma client0_eq:
  "client0 = \<lparr>host = ''http://boiler'', auth = (''user'', ''secret''),
     client_model_id = ''default-model-id'', client_sw_revision = ''default-sw-revision'',
     requests = [], slept = 0, fetched = []\<rparr>"
  by (simp add: client0_def EconetClient_init_def)

section \<open>Claims about the client\<close>

text \<open>
  C3. If the GET of a URL times out on every attempt, \<^verbatim>\<open>_get\<close> issues exactly five
  requests for that URL, sleeps one time unit after each of the five timeouts, and then
  returns \<^verbatim>\<open>None\<close>; it does not raise.
\<close>

theorem get_times_out_five_attempts:
  assumes "\<forall>n. dev n url = TimedOut"
  shows "EconetClient_get dev url c =
    (Inr JNull, c\<lparr>requests := requests c @ [url, url, url, url, url], slept := slept c + 5\<rparr>)"
  using assms
  by (simp add: EconetClient_get_def get_loop_timeout get_loop_exhausted max_attempts_def)

theorem get_times_out_five_attempts_witness:
  "(\<forall>n. dev_timeout n ''http://boiler/econet/sysParams'' = TimedOut) \<and>
   EconetClient_get dev_timeout ''http://boiler/econet/sysParams'' client0 =
     (Inr JNull,
      client0\<lparr>requests := replicate 5 ''http://boiler/econet/sysParams'', slept := 5\<rparr>)"
proof -
  have h: "\<forall>n. dev_timeout n ''http://boiler/econet/sysParams'' = TimedOut"
    by (simp add: dev_timeout_def)
  show ?thesis
    using h get_times_out_five_attempts [of dev_timeout "''http://boiler/econet/sysParams''" client0]
    by (simp add: client0_eq numeral_eq_Suc)
qed

text \<open>
  C4. If the device answers the first attempt with HTTP 401, \<^verbatim>\<open>_get\<close> raises
  \<^verbatim>\<open>AuthError\<close> on that attempt: one request has been issued, none follows, and no
  sleep has happened.
\<close>

theorem get_unauthorized_first_attempt:
  assumes "dev (length (requests c)) url = Reply 401 b"
  shows "EconetClient_get dev url c = (Inl AuthError, c\<lparr>requests := requests c @ [url]\<rparr>)"
  using assms
  by (simp add: EconetClient_get_def get_loop_reply max_attempts_def)

theorem get_unauthorized_first_attempt_witness:
  "dev_status 401 (length (requests client0)) ''http://boiler/econet/sysParams'' = Reply 401 Garbled \<and>
   EconetClient_get (dev_status 401) ''http://boiler/econet/sysParams'' client0 =
     (Inl AuthError, client0\<lparr>requests := [''http://boiler/econet/sysParams'']\<rparr>)"
proof -
  have h: "dev_status 401 (length (requests client0)) ''http://boiler/econet/sysParams'' = Reply 401 Garbled"
    by (simp add: dev_status_def)
  show ?thesis
    using h get_unauthorized_first_attempt
      [of "dev_status 401" client0 "''http://boiler/econet/sysParams''" Garbled]
    by (simp add: client0_eq)
qed

section \<open>The facade: writing a parameter\<close>

lemma key_in_obj: "(key \<in> fst ` set kvs) \<longleftrightarrow> (\<exists>v. map_of kvs key = Some v)"
  using map_of_eq_None_iff [of kvs key] by auto

lemma set_param_None: "Econet300Api_set_param dev str_of None v a = (Inr False, a)"
  by (simp add: Econet300Api_set_param_def)



lemma set_param_true_iff:
  "fst (Econet300Api_set_param dev str_of (Some p) v a) = Inr True \<longleftrightarrow>
   confirmed (fst (EconetClient_set_param dev str_of p v (client a)))"
proof (cases "EconetClient_set_param dev str_of p v (client a)")
  case (Pair r c')
  show ?thesis
  proof (cases r)
    case (Inl e)
    with Pair show ?thesis by (simp add: Econet300Api_set_param_def)
  next
    case (Inr data)
    with Pair show ?thesis
      by (cases data)
         (auto simp: Econet300Api_set_param_def Let_def key_in_obj
               split: option.splits)
  qed
qed

lemma set_param_cache:
  "cache (snd (Econet300Api_set_param dev str_of param v a)) =
   (case param of None \<Rightarrow> cache a
    | Some p \<Rightarrow> if confirmed (fst (EconetClient_set_param dev str_of p v (client a)))
                then (cache a)(p \<mapsto> v) else cache a)"
proof (cases param)
  case None
  then show ?thesis by (simp add: set_param_None)
next
  case (Some p)
  show ?thesis
  proof (cases "EconetClient_set_param dev str_of p v (client a)")
    case (Pair r c')
    show ?thesis
    proof (cases r)
      case (Inl e)
      with Pair Some show ?thesis by (simp add: Econet300Api_set_param_def)
    next
      case (Inr data)
      with Pair Some show ?thesis
        by (cases data)
           (auto simp: Econet300Api_set_param_def Let_def key_in_obj MemCache_set_def
                 split: option.splits)
    qed
  qed
qed



lemma get_dev_json:
  "EconetClient_get (dev_json j) url c = (Inr j, c\<lparr>requests := requests c @ [url]\<rparr>)"
  by (simp add: EconetClient_get_def get_loop_reply [where status = 200 and b = "Json j"]
        max_attempts_def dev_json_def)

lemma get_dev_status:
  "EconetClient_get (dev_status st) url c =
     (if st = 401 then Inl AuthError else if st \<noteq> 200 then Inr JNull else Inl DecodeError,
      c\<lparr>requests := requests c @ [url]\<rparr>)"
  by (simp add: EconetClient_get_def get_loop_reply [where status = st and b = Garbled]
        max_attempts_def dev_status_def)

lemma api0_eq:
  "api0 = \<lparr>client = client0, cache = Map.empty, uid = JStr ''default-uid'',
     model_id = JStr ''default-model-id'', sw_revision = JStr ''default-sw-revision'',
     hw_version = JStr ''default-hw-version''\<rparr>"
  by (simp add: api0_def Econet300Api_new_def)


section \<open>What each operation does to the cache\<close>

lemma init_field_cache:
  "(\<And>x s. cache (upd x s) = cache s) \<Longrightarrow> cache (snd (init_field key sp upd a)) = cache a"
  by (simp add: init_field_def split: sum.splits)

lemma init_field_cache':
  assumes "\<And>x s. cache (upd x s) = cache s" and "init_field key sp upd a = (r, a')"
  shows "cache a' = cache a"
  using init_field_cache [of upd key sp a] assms by simp

lemma init_cache: "cache (snd (Econet300Api_init K dev a)) = cache a"
proof (cases "EconetClient_fetch_sys_params dev (API_SYS_PARAMS_URI K) (client a)")
  case (Pair r c')
  show ?thesis
  proof (cases r)
    case (Inl e)
    with Pair show ?thesis by (simp add: Econet300Api_init_def)
  next
    case (Inr sp)
    let ?a0 = "a\<lparr>client := c'\<rparr>"
    obtain r1 a1 where 1: "init_field (API_SYS_PARAMS_PARAM_UID K) sp (\<lambda>v s. s\<lparr>uid := v\<rparr>) ?a0 = (r1, a1)"
      by (cases "init_field (API_SYS_PARAMS_PARAM_UID K) sp (\<lambda>v s. s\<lparr>uid := v\<rparr>) ?a0")
    obtain r2 a2 where 2: "init_field (API_SYS_PARAMS_PARAM_MODEL_ID K) sp (\<lambda>v s. s\<lparr>model_id := v\<rparr>) a1 = (r2, a2)"
      by (cases "init_field (API_SYS_PARAMS_PARAM_MODEL_ID K) sp (\<lambda>v s. s\<lparr>model_id := v\<rparr>) a1")
    obtain r3 a3 where 3: "init_field (API_SYS_PARAMS_PARAM_SW_REV K) sp (\<lambda>v s. s\<lparr>sw_revision := v\<rparr>) a2 = (r3, a3)"
      by (cases "init_field (API_SYS_PARAMS_PARAM_SW_REV K) sp (\<lambda>v s. s\<lparr>sw_revision := v\<rparr>) a2")
    obtain r4 a4 where 4: "init_field (API_SYS_PARAMS_PARAM_HW_VER K) sp (\<lambda>v s. s\<lparr>hw_version := v\<rparr>) a3 = (r4, a4)"
      by (cases "init_field (API_SYS_PARAMS_PARAM_HW_VER K) sp (\<lambda>v s. s\<lparr>hw_version := v\<rparr>) a3")
    have c1: "cache a1 = cache a" using init_field_cache' [OF _ 1] by simp
    have c2: "cache a2 = cache a" using init_field_cache' [OF _ 2] c1 by simp
    have c3: "cache a3 = cache a" using init_field_cache' [OF _ 3] c2 by simp
    have c4: "cache a4 = cache a" using init_field_cache' [OF _ 4] c3 by simp
    show ?thesis
      using Pair Inr 1 2 3 4 c1 c2 c3 c4
      by (simp add: Econet300Api_init_def Let_def split: sum.splits)
  qed
qed

lemma fetch_reg_key_cache: "cache (snd (Econet300Api_fetch_reg_key dev reg dk a)) = cache a"
  by (simp add: Econet300Api_fetch_reg_key_def Let_def split: prod.splits sum.splits option.splits)

lemma fetch_reg_names_cache: "cache (snd (Econet300Api_fetch_reg_names dev reg dk a)) = cache a"
  by (simp add: Econet300Api_fetch_reg_names_def Let_def split: prod.splits sum.splits option.splits)

lemma ensure_limits_warm:
  "MemCache_exists (cache a) (API_EDITABLE_PARAMS_LIMITS_DATA K) \<Longrightarrow> ensure_limits K dev a = (Inr (), a)"
  by (simp add: ensure_limits_def)

lemma ensure_limits_cache:
  "cache (snd (ensure_limits K dev a)) k \<noteq> cache a k \<Longrightarrow>
   k = API_EDITABLE_PARAMS_LIMITS_DATA K \<and> \<not> MemCache_exists (cache a) k"
proof -
  assume d: "cache (snd (ensure_limits K dev a)) k \<noteq> cache a k"
  show ?thesis
  proof (cases "MemCache_exists (cache a) (API_EDITABLE_PARAMS_LIMITS_DATA K)")
    case True
    with d show ?thesis by (simp add: ensure_limits_warm)
  next
    case False
    obtain r a1 where f: "Econet300Api_fetch_reg_key dev (API_EDITABLE_PARAMS_LIMITS_URI K)
        (Some (API_EDITABLE_PARAMS_LIMITS_DATA K)) a = (r, a1)" by (cases "Econet300Api_fetch_reg_key dev (API_EDITABLE_PARAMS_LIMITS_URI K)
        (Some (API_EDITABLE_PARAMS_LIMITS_DATA K)) a") 
    have c: "cache a1 = cache a" using fetch_reg_key_cache [of dev _ _ a] f by (metis snd_conv)
    show ?thesis using d False f c
      by (cases r) (auto simp: ensure_limits_def MemCache_set_def split: if_splits)
  qed
qed

lemma get_param_limits_state:
  "snd (Econet300Api_get_param_limits K dev param a) = snd (ensure_limits K dev a)"
  by (simp add: Econet300Api_get_param_limits_def Let_def split: prod.splits sum.splits option.splits)

lemma fetch_param_edit_data_state:
  "snd (Econet300Api_fetch_param_edit_data K dev a) = snd (ensure_limits K dev a)"
  by (simp add: Econet300Api_fetch_param_edit_data_def split: prod.splits sum.splits)

lemma fetch_reg_params_data_cache:
  "cache (snd (Econet300Api_fetch_reg_params_data K dev a)) = cache a"
proof (cases "Econet300Api_fetch_reg_key dev (API_REG_PARAMS_DATA_URI K)
    (Some (API_REG_PARAMS_DATA_PARAM_DATA K)) a")
  case (Pair r a1)
  then have "cache a1 = cache a"
    using fetch_reg_key_cache [of dev "API_REG_PARAMS_DATA_URI K" "Some (API_REG_PARAMS_DATA_PARAM_DATA K)" a]
    by simp
  with Pair show ?thesis
    by (simp add: Econet300Api_fetch_reg_params_data_def split: sum.splits)
qed

lemma fetch_sys_params_cache:
  "cache (snd (Econet300Api_fetch_sys_params K dev a)) = cache a"
  by (simp add: Econet300Api_fetch_sys_params_def split: prod.splits)

lemma fetch_reg_params_cache:
  "cache (snd (Econet300Api_fetch_reg_params K dev a)) = cache a"
  by (simp add: Econet300Api_fetch_reg_params_def fetch_reg_names_cache)

text \<open>
  C2. Whatever operation of the facade runs, an entry of the cache changes in two ways
  only: \<^verbatim>\<open>set_param\<close> stores the written value under its key after the device has
  confirmed the write (a response that is an object with \<^verbatim>\<open>"result"\<close> equal to
  \<^verbatim>\<open>"OK"\<close>), or the limits table is stored under its own key, which is no parameter,
  while the cache had none. On every call of \<^verbatim>\<open>set_param\<close> that does not return
  \<^verbatim>\<open>True\<close>, the cache is as it was.
\<close>

theorem cache_written_only_on_confirmation:
  "(cache (run_op K dev str_of opr a) k \<noteq> cache a k \<longrightarrow>
      (\<exists>v. opr = SetParam (Some k) v \<and>
           confirmed (fst (EconetClient_set_param dev str_of k v (client a))) \<and>
           cache (run_op K dev str_of opr a) k = Some v) \<or>
      (k = API_EDITABLE_PARAMS_LIMITS_DATA K \<and> \<not> MemCache_exists (cache a) k \<and>
       (opr = FetchParamEditData \<or> (\<exists>p. opr = GetParamLimits p)))) \<and>
   (fst (Econet300Api_set_param dev str_of param v a) \<noteq> Inr True \<longrightarrow>
      cache (snd (Econet300Api_set_param dev str_of param v a)) = cache a)"
proof (intro conjI impI)
  assume d: "cache (run_op K dev str_of opr a) k \<noteq> cache a k"
  show "(\<exists>v. opr = SetParam (Some k) v \<and>
           confirmed (fst (EconetClient_set_param dev str_of k v (client a))) \<and>
           cache (run_op K dev str_of opr a) k = Some v) \<or>
      (k = API_EDITABLE_PARAMS_LIMITS_DATA K \<and> \<not> MemCache_exists (cache a) k \<and>
       (opr = FetchParamEditData \<or> (\<exists>p. opr = GetParamLimits p)))"
  proof (cases opr)
    case Init
    with d show ?thesis by (simp add: init_cache)
  next
    case (SetParam param' v')
    with d show ?thesis
      by (auto simp: set_param_cache split: option.splits if_splits)
  next
    case (GetParamLimits p)
    with d ensure_limits_cache [of K dev a k] show ?thesis
      by (auto simp: get_param_limits_state)
  next
    case FetchRegParamsData
    with d show ?thesis by (simp add: fetch_reg_params_data_cache)
  next
    case FetchParamEditData
    with d ensure_limits_cache [of K dev a k] show ?thesis
      by (auto simp: fetch_param_edit_data_state)
  next
    case FetchSysParams
    with d show ?thesis by (simp add: fetch_sys_params_cache)
  next
    case FetchRegParams
    with d show ?thesis by (simp add: fetch_reg_params_cache)
  qed
next
  assume "fst (Econet300Api_set_param dev str_of param v a) \<noteq> Inr True"
  then show "cache (snd (Econet300Api_set_param dev str_of param v a)) = cache a"
    by (cases param) (simp_all add: set_param_cache set_param_true_iff)
qed

theorem cache_written_only_on_confirmation_witness:
  "cache (run_op sample_const (dev_json (JObj [(''result'', JStr ''OK'')])) str_of_sample
      (SetParam (Some ''1280'') (JStr ''55'')) api0) ''1280'' \<noteq> cache api0 ''1280'' \<and>
   confirmed (fst (EconetClient_set_param (dev_json (JObj [(''result'', JStr ''OK'')])) str_of_sample
      ''1280'' (JStr ''55'') (client api0))) \<and>
   cache (run_op sample_const (dev_json (JObj [(''result'', JStr ''OK'')])) str_of_sample
      (SetParam (Some ''1280'') (JStr ''55'')) api0) ''1280'' = Some (JStr ''55'') \<and>
   fst (Econet300Api_set_param (dev_status 500) str_of_sample (Some ''1280'') (JStr ''55'') api0)
      \<noteq> Inr True \<and>
   cache (snd (Econet300Api_set_param (dev_status 500) str_of_sample (Some ''1280'') (JStr ''55'') api0))
      = cache api0"
proof -
  have t: "confirmed (fst (EconetClient_set_param (dev_json (JObj [(''result'', JStr ''OK'')]))
      str_of_sample ''1280'' (JStr ''55'') (client api0)))"
    by (simp add: EconetClient_set_param_def get_dev_json)
  have d: "cache (run_op sample_const (dev_json (JObj [(''result'', JStr ''OK'')])) str_of_sample
      (SetParam (Some ''1280'') (JStr ''55'')) api0) ''1280'' \<noteq> cache api0 ''1280''"
    using t by (simp add: set_param_cache api0_eq)
  have f: "fst (Econet300Api_set_param (dev_status 500) str_of_sample (Some ''1280'') (JStr ''55'') api0)
      \<noteq> Inr True"
    by (simp add: set_param_true_iff EconetClient_set_param_def get_dev_status)
  show ?thesis
    using t d f
      cache_written_only_on_confirmation [of sample_const "dev_json (JObj [(''result'', JStr ''OK'')])"
        str_of_sample "SetParam (Some ''1280'') (JStr ''55'')" api0 "''1280''"
        "Some ''1280''" "JStr ''55''"]
      cache_written_only_on_confirmation [of sample_const "dev_status 500"
        str_of_sample "SetParam (Some ''1280'') (JStr ''55'')" api0 "''1280''"
        "Some ''1280''" "JStr ''55''"]
    by auto
qed

section \<open>The constructor of the client\<close>

lemma startswith_contains: "startswith s p \<Longrightarrow> str_contains p s"
  by (cases s) (auto simp: startswith_def)

lemma client_init_host:
  "host (EconetClient_init h u p) =
     (if str_contains ''http://'' h \<or> str_contains ''https://'' h then h else ''http://'' @ h)"
  by (simp add: EconetClient_init_def Let_def)

text \<open>
  C9, as stated, fails: this host string does not start with a scheme, yet it is stored
  unchanged, because \<^verbatim>\<open>"http://"\<close> occurs inside it.
\<close>

theorem host_scheme_counterexample:
  "\<not> startswith ''proxy.lan/http://boiler'' ''http://'' \<and>
   \<not> startswith ''proxy.lan/http://boiler'' ''https://'' \<and>
   host (EconetClient_init ''proxy.lan/http://boiler'' ''user'' ''secret'') = ''proxy.lan/http://boiler'' \<and>
   host (EconetClient_init ''proxy.lan/http://boiler'' ''user'' ''secret'') \<noteq>
     ''http://'' @ ''proxy.lan/http://boiler''"
  by (simp add: client_init_host startswith_def)

text \<open>
  C9, amended. The constructor tests containment, not the start of the string: when
  neither \<^verbatim>\<open>"http://"\<close> nor \<^verbatim>\<open>"https://"\<close> occurs anywhere in the host, the stored host
  is the input prefixed with \<^verbatim>\<open>"http://"\<close>; when either occurs, and so whenever the host
  starts with one of them, the host is stored unchanged.
\<close>

theorem host_scheme_by_containment:
  "(\<not> str_contains ''http://'' h \<and> \<not> str_contains ''https://'' h \<longrightarrow>
      host (EconetClient_init h u p) = ''http://'' @ h) \<and>
   (str_contains ''http://'' h \<or> str_contains ''https://'' h \<longrightarrow>
      host (EconetClient_init h u p) = h) \<and>
   (startswith h ''http://'' \<or> startswith h ''https://'' \<longrightarrow>
      host (EconetClient_init h u p) = h)"
  using startswith_contains [of h "''http://''"] startswith_contains [of h "''https://''"]
  by (auto simp: client_init_host)

theorem host_scheme_by_containment_witness:
  "\<not> str_contains ''http://'' ''boiler'' \<and> \<not> str_contains ''https://'' ''boiler'' \<and>
   host (EconetClient_init ''boiler'' ''user'' ''secret'') = ''http://boiler'' \<and>
   startswith ''https://boiler'' ''https://'' \<and>
   str_contains ''https://'' ''https://boiler'' \<and>
   host (EconetClient_init ''https://boiler'' ''user'' ''secret'') = ''https://boiler''"
proof -
  have a: "\<not> str_contains ''http://'' ''boiler'' \<and> \<not> str_contains ''https://'' ''boiler''"
    by simp
  have b: "startswith ''https://boiler'' ''https://''"
    by (simp add: startswith_def)
  have c: "str_contains ''https://'' ''https://boiler''"
    by simp
  show ?thesis
    using a b c
      host_scheme_by_containment [of "''boiler''" "''user''" "''secret''"]
      host_scheme_by_containment [of "''https://boiler''" "''user''" "''secret''"]
    by simp
qed

section \<open>Initialisation of the identity fields\<close>

lemma init_field_obj:
  "init_field key (JObj kvs) upd a =
     (Inr (), case map_of kvs key of None \<Rightarrow> a | Some v \<Rightarrow> upd v a)"
  by (auto simp: init_field_def key_in_obj split: option.splits)

lemma init_no_data:
  "EconetClient_fetch_sys_params dev (API_SYS_PARAMS_URI K) (client a) = (Inr JNull, c') \<Longrightarrow>
   Econet300Api_init K dev a = (Inr (), a\<lparr>client := c'\<rparr>)"
  by (simp add: Econet300Api_init_def)

lemma init_obj:
  "EconetClient_fetch_sys_params dev (API_SYS_PARAMS_URI K) (client a) = (Inr (JObj kvs), c') \<Longrightarrow>
   Econet300Api_init K dev a =
     (Inr (),
      a\<lparr>client := c',
        uid := (case map_of kvs (API_SYS_PARAMS_PARAM_UID K) of None \<Rightarrow> uid a | Some v \<Rightarrow> v),
        model_id := (case map_of kvs (API_SYS_PARAMS_PARAM_MODEL_ID K) of None \<Rightarrow> model_id a | Some v \<Rightarrow> v),
        sw_revision := (case map_of kvs (API_SYS_PARAMS_PARAM_SW_REV K) of None \<Rightarrow> sw_revision a | Some v \<Rightarrow> v),
        hw_version := (case map_of kvs (API_SYS_PARAMS_PARAM_HW_VER K) of None \<Rightarrow> hw_version a | Some v \<Rightarrow> v)\<rparr>)"
  by (simp add: Econet300Api_init_def init_field_obj Let_def split: option.splits)

lemma fetch_dev_json:
  "EconetClient_fetch_sys_params (dev_json j) reg c =
     (Inr j, c\<lparr>fetched := fetched c @ [reg], requests := requests c @ [host c @ ''/econet/'' @ reg]\<rparr>)"
  by (simp add: EconetClient_fetch_sys_params_def get_dev_json)

lemma fetch_dev_status:
  "EconetClient_fetch_sys_params (dev_status st) reg c =
     (if st = 401 then Inl AuthError else if st \<noteq> 200 then Inr JNull else Inl DecodeError,
      c\<lparr>fetched := fetched c @ [reg], requests := requests c @ [host c @ ''/econet/'' @ reg]\<rparr>)"
  by (simp add: EconetClient_fetch_sys_params_def get_dev_status)

text \<open>
  C8. Starting from the freshly constructed facade: if the fetch of the system parameters
  returns no data, \<^verbatim>\<open>init\<close> returns with the four identity fields at their placeholder
  strings (only the client has moved); if the response is an object without the
  hardware-version key, the hardware version keeps its placeholder, and each of uid,
  model id and software revision is the response's value where the response has the key
  and the placeholder where it has not.
\<close>

theorem init_identity_fields:
  "(EconetClient_fetch_sys_params dev (API_SYS_PARAMS_URI K) c = (Inr JNull, c') \<longrightarrow>
      Econet300Api_init K dev (Econet300Api_new c m) = (Inr (), (Econet300Api_new c m)\<lparr>client := c'\<rparr>) \<and>
      uid (snd (Econet300Api_init K dev (Econet300Api_new c m))) = JStr ''default-uid'' \<and>
      model_id (snd (Econet300Api_init K dev (Econet300Api_new c m))) = JStr ''default-model-id'' \<and>
      sw_revision (snd (Econet300Api_init K dev (Econet300Api_new c m))) = JStr ''default-sw-revision'' \<and>
      hw_version (snd (Econet300Api_init K dev (Econet300Api_new c m))) = JStr ''default-hw-version'') \<and>
   (EconetClient_fetch_sys_params dev (API_SYS_PARAMS_URI K) c = (Inr (JObj kvs), c') \<and>
    API_SYS_PARAMS_PARAM_HW_VER K \<notin> fst ` set kvs \<longrightarrow>
      fst (Econet300Api_init K dev (Econet300Api_new c m)) = Inr () \<and>
      hw_version (snd (Econet300Api_init K dev (Econet300Api_new c m))) = JStr ''default-hw-version'' \<and>
      uid (snd (Econet300Api_init K dev (Econet300Api_new c m))) =
        (case map_of kvs (API_SYS_PARAMS_PARAM_UID K) of None \<Rightarrow> JStr ''default-uid'' | Some v \<Rightarrow> v) \<and>
      model_id (snd (Econet300Api_init K dev (Econet300Api_new c m))) =
        (case map_of kvs (API_SYS_PARAMS_PARAM_MODEL_ID K) of None \<Rightarrow> JStr ''default-model-id'' | Some v \<Rightarrow> v) \<and>
      sw_revision (snd (Econet300Api_init K dev (Econet300Api_new c m))) =
        (case map_of kvs (API_SYS_PARAMS_PARAM_SW_REV K) of None \<Rightarrow> JStr ''default-sw-revision'' | Some v \<Rightarrow> v))"
proof (intro conjI impI)
  assume f: "EconetClient_fetch_sys_params dev (API_SYS_PARAMS_URI K) c = (Inr JNull, c')"
  have i: "Econet300Api_init K dev (Econet300Api_new c m) = (Inr (), (Econet300Api_new c m)\<lparr>client := c'\<rparr>)"
    using f init_no_data [of dev K "Econet300Api_new c m" c'] by (simp add: Econet300Api_new_def)
  show "Econet300Api_init K dev (Econet300Api_new c m) = (Inr (), (Econet300Api_new c m)\<lparr>client := c'\<rparr>)"
    by (rule i)
  show "uid (snd (Econet300Api_init K dev (Econet300Api_new c m))) = JStr ''default-uid''"
    using i by (simp add: Econet300Api_new_def split: option.splits)
  show "model_id (snd (Econet300Api_init K dev (Econet300Api_new c m))) = JStr ''default-model-id''"
    using i by (simp add: Econet300Api_new_def split: option.splits)
  show "sw_revision (snd (Econet300Api_init K dev (Econet300Api_new c m))) = JStr ''default-sw-revision''"
    using i by (simp add: Econet300Api_new_def split: option.splits)
  show "hw_version (snd (Econet300Api_init K dev (Econet300Api_new c m))) = JStr ''default-hw-version''"
    using i by (simp add: Econet300Api_new_def split: option.splits)
next
  assume "EconetClient_fetch_sys_params dev (API_SYS_PARAMS_URI K) c = (Inr (JObj kvs), c') \<and>
    API_SYS_PARAMS_PARAM_HW_VER K \<notin> fst ` set kvs"
  then have f: "EconetClient_fetch_sys_params dev (API_SYS_PARAMS_URI K) (client (Econet300Api_new c m)) = (Inr (JObj kvs), c')"
    and h: "map_of kvs (API_SYS_PARAMS_PARAM_HW_VER K) = None"
    by (simp_all add: Econet300Api_new_def map_of_eq_None_iff)
  note i = init_obj [OF f]
  show "fst (Econet300Api_init K dev (Econet300Api_new c m)) = Inr ()"
    using i by simp
  show "hw_version (snd (Econet300Api_init K dev (Econet300Api_new c m))) = JStr ''default-hw-version''"
    using i h by (simp add: Econet300Api_new_def)
  show "uid (snd (Econet300Api_init K dev (Econet300Api_new c m))) =
        (case map_of kvs (API_SYS_PARAMS_PARAM_UID K) of None \<Rightarrow> JStr ''default-uid'' | Some v \<Rightarrow> v)"
    using i by (simp add: Econet300Api_new_def split: option.splits)
  show "model_id (snd (Econet300Api_init K dev (Econet300Api_new c m))) =
        (case map_of kvs (API_SYS_PARAMS_PARAM_MODEL_ID K) of None \<Rightarrow> JStr ''default-model-id'' | Some v \<Rightarrow> v)"
    using i by (simp add: Econet300Api_new_def split: option.splits)
  show "sw_revision (snd (Econet300Api_init K dev (Econet300Api_new c m))) =
        (case map_of kvs (API_SYS_PARAMS_PARAM_SW_REV K) of None \<Rightarrow> JStr ''default-sw-revision'' | Some v \<Rightarrow> v)"
    using i by (simp add: Econet300Api_new_def split: option.splits)
qed

theorem init_identity_fields_witness:
  "EconetClient_fetch_sys_params (dev_status 500) (API_SYS_PARAMS_URI sample_const) client0 =
     (Inr JNull, client0\<lparr>fetched := [''sysParams''], requests := [''http://boiler/econet/sysParams'']\<rparr>) \<and>
   uid (snd (Econet300Api_init sample_const (dev_status 500) api0)) = JStr ''default-uid'' \<and>
   model_id (snd (Econet300Api_init sample_const (dev_status 500) api0)) = JStr ''default-model-id'' \<and>
   sw_revision (snd (Econet300Api_init sample_const (dev_status 500) api0)) = JStr ''default-sw-revision'' \<and>
   hw_version (snd (Econet300Api_init sample_const (dev_status 500) api0)) = JStr ''default-hw-version'' \<and>
   EconetClient_fetch_sys_params (dev_json sys_params_no_hw) (API_SYS_PARAMS_URI sample_const) client0 =
     (Inr sys_params_no_hw,
      client0\<lparr>fetched := [''sysParams''], requests := [''http://boiler/econet/sysParams'']\<rparr>) \<and>
   fst (Econet300Api_init sample_const (dev_json sys_params_no_hw) api0) = Inr () \<and>
   hw_version (snd (Econet300Api_init sample_const (dev_json sys_params_no_hw) api0)) = JStr ''default-hw-version'' \<and>
   uid (snd (Econet300Api_init sample_const (dev_json sys_params_no_hw) api0)) = JStr ''A1B2C3'' \<and>
   model_id (snd (Econet300Api_init sample_const (dev_json sys_params_no_hw) api0)) = JStr ''ecoMAX810P-L'' \<and>
   sw_revision (snd (Econet300Api_init sample_const (dev_json sys_params_no_hw) api0)) = JStr ''3.2.3811''"
proof -
  let ?c1 = "client0\<lparr>fetched := [''sysParams''], requests := [''http://boiler/econet/sysParams'']\<rparr>"
  let ?kvs = "[(''uid'', JStr ''A1B2C3''), (''controllerID'', JStr ''ecoMAX810P-L''),
           (''softVer'', JStr ''3.2.3811'')]"
  have a: "EconetClient_fetch_sys_params (dev_status 500) (API_SYS_PARAMS_URI sample_const) client0 =
     (Inr JNull, ?c1)"
    by (simp add: fetch_dev_status sample_const_def client0_eq)
  have b: "EconetClient_fetch_sys_params (dev_json sys_params_no_hw) (API_SYS_PARAMS_URI sample_const) client0 =
     (Inr (JObj ?kvs), ?c1)"
    by (simp add: fetch_dev_json sample_const_def client0_eq sys_params_no_hw_def)
  have c: "API_SYS_PARAMS_PARAM_HW_VER sample_const \<notin> fst ` set ?kvs"
    by (simp add: sample_const_def)
  have k: "API_SYS_PARAMS_PARAM_UID sample_const = ''uid''"
    "API_SYS_PARAMS_PARAM_MODEL_ID sample_const = ''controllerID''"
    "API_SYS_PARAMS_PARAM_SW_REV sample_const = ''softVer''"
    by (simp_all add: sample_const_def)
  show ?thesis
    using a b c
      init_identity_fields [of "dev_status 500" sample_const client0 ?c1 Map.empty ?kvs]
      init_identity_fields [of "dev_json sys_params_no_hw" sample_const client0 ?c1 Map.empty ?kvs]
    by (simp add: api0_def k sys_params_no_hw_def Econet300Api_new_def)
qed

section \<open>Reading a registry\<close>

lemma client_fetch_fetched:
  "fetched (snd (EconetClient_fetch_sys_params dev reg c)) = fetched c @ [reg]"
  by (simp add: EconetClient_fetch_sys_params_def get_frame)

lemma client_fetch_requests:
  "\<exists>k. 1 \<le> k \<and> k \<le> 5 \<and>
     requests (snd (EconetClient_fetch_sys_params dev reg c)) =
       requests c @ replicate k (host c @ ''/econet/'' @ reg)"
  using get_requests [of dev "host c @ ''/econet/'' @ reg" "c\<lparr>fetched := fetched c @ [reg]\<rparr>"]
  by (simp add: EconetClient_fetch_sys_params_def)

lemma fetch_reg_key_unwrap:
  "Econet300Api_fetch_reg_key dev reg (Some k) a =
     (unwrap k (fst (EconetClient_fetch_sys_params dev reg (client a))),
      a\<lparr>client := snd (EconetClient_fetch_sys_params dev reg (client a))\<rparr>)"
proof (cases "EconetClient_fetch_sys_params dev reg (client a)")
  case (Pair r c')
  show ?thesis
  proof (cases r)
    case (Inl e)
    with Pair show ?thesis by (simp add: Econet300Api_fetch_reg_key_def)
  next
    case (Inr data)
    with Pair show ?thesis
      by (cases data) (auto simp: Econet300Api_fetch_reg_key_def Let_def split: sum.splits)
  qed
qed

lemma fetch_reg_names_eq:
  "Econet300Api_fetch_reg_names dev reg dk a = Econet300Api_fetch_reg_key dev reg dk a"
  by (simp add: Econet300Api_fetch_reg_names_def Econet300Api_fetch_reg_key_def)

lemma unwrap_null: "unwrap k (Inr JNull) = Inl DataError"
  by simp

lemma unwrap_obj:
  "unwrap k (Inr (JObj kvs)) = (case map_of kvs k of None \<Rightarrow> Inl DataError | Some v \<Rightarrow> Inr v)"
  by (auto simp: key_in_obj split: option.splits)

lemma fetch_reg_params_data_unwrap:
  "Econet300Api_fetch_reg_params_data K dev a =
     (case unwrap (API_REG_PARAMS_DATA_PARAM_DATA K)
             (fst (EconetClient_fetch_sys_params dev (API_REG_PARAMS_DATA_URI K) (client a))) of
        Inl e \<Rightarrow> if e = DataError then Inr (JObj []) else Inl e
      | Inr v \<Rightarrow> Inr v,
      a\<lparr>client := snd (EconetClient_fetch_sys_params dev (API_REG_PARAMS_DATA_URI K) (client a))\<rparr>)"
  by (simp add: Econet300Api_fetch_reg_params_data_def fetch_reg_key_unwrap split: sum.splits)

lemma fetch_reg_params_unwrap:
  "Econet300Api_fetch_reg_params K dev a =
     (unwrap (API_REG_PARAMS_PARAM_DATA K)
        (fst (EconetClient_fetch_sys_params dev (API_REG_PARAMS_URI K) (client a))),
      a\<lparr>client := snd (EconetClient_fetch_sys_params dev (API_REG_PARAMS_URI K) (client a))\<rparr>)"
  by (simp add: Econet300Api_fetch_reg_params_def fetch_reg_names_eq fetch_reg_key_unwrap)

lemma api_fetch_sys_params_eq:
  "Econet300Api_fetch_sys_params K dev a =
     (fst (EconetClient_fetch_sys_params dev (API_SYS_PARAMS_URI K) (client a)),
      a\<lparr>client := snd (EconetClient_fetch_sys_params dev (API_SYS_PARAMS_URI K) (client a))\<rparr>)"
  by (simp add: Econet300Api_fetch_sys_params_def split: prod.splits)

lemma get_loop_errors:
  "fst (get_loop dev url n c) = Inl e \<Longrightarrow>
   e = AuthError \<or> e = ClientError \<or> e = DecodeError \<or> e = UnicodeDecodeError"
proof (induction dev url n c rule: get_loop.induct)
  case (1 dev url attempt c)
  show ?case
  proof (cases "attempt \<le> max_attempts")
    case False
    with 1(2) show ?thesis by (simp add: get_loop_exhausted)
  next
    case True
    show ?thesis
    proof (cases "dev (length (requests c)) url")
      case TimedOut
      with True 1 show ?thesis by (simp add: get_loop_timeout)
    next
      case ConnFailed
      with True 1(2) show ?thesis by (simp add: get_loop_conn_failed)
    next
      case (Reply st b)
      with True 1(2) show ?thesis
        by (cases b) (auto simp: get_loop_reply split: if_splits)
    qed
  qed
qed

lemma client_fetch_no_data_error:
  "fst (EconetClient_fetch_sys_params dev reg c) \<noteq> Inl DataError"
  using get_loop_errors [of dev "host c @ ''/econet/'' @ reg" 1 "c\<lparr>fetched := fetched c @ [reg]\<rparr>" DataError]
  by (auto simp: EconetClient_fetch_sys_params_def EconetClient_get_def)




text \<open>
  C6, as stated, fails for two of the three reads. With no envelope (the device answers
  500), \<^verbatim>\<open>fetch_sys_params\<close> returns \<^verbatim>\<open>None\<close> and \<^verbatim>\<open>fetch_reg_params_data\<close> returns the
  empty dict: neither signals a data error. With an envelope, \<^verbatim>\<open>fetch_sys_params\<close>
  returns all of it and unwraps no key.
\<close>

theorem pass_through_reads_counterexample:
  "fst (Econet300Api_fetch_sys_params sample_const (dev_status 500) api0) = Inr JNull \<and>
   fst (Econet300Api_fetch_reg_params_data sample_const (dev_status 500) api0) = Inr (JObj []) \<and>
   fst (Econet300Api_fetch_sys_params sample_const (dev_json sys_params_no_hw) api0) = Inr sys_params_no_hw"
  by (simp add: api_fetch_sys_params_eq fetch_reg_params_data_unwrap fetch_dev_status fetch_dev_json)

text \<open>
  C6, amended. \<^verbatim>\<open>fetch_reg_params\<close> unwraps its key from the envelope and raises
  \<^verbatim>\<open>DataError\<close> when the envelope is missing or lacks the key. \<^verbatim>\<open>fetch_reg_params_data\<close>
  unwraps its key in the same way but turns that data error into the empty dict.
  \<^verbatim>\<open>fetch_sys_params\<close> returns what the client returned, the whole envelope or
  \<^verbatim>\<open>None\<close>, and raises no data error.
\<close>

theorem pass_through_reads:
  "(fst (EconetClient_fetch_sys_params dev (API_REG_PARAMS_URI K) (client a)) = Inr JNull \<longrightarrow>
      fst (Econet300Api_fetch_reg_params K dev a) = Inl DataError) \<and>
   (fst (EconetClient_fetch_sys_params dev (API_REG_PARAMS_URI K) (client a)) = Inr (JObj kvs) \<longrightarrow>
      fst (Econet300Api_fetch_reg_params K dev a) =
        (case map_of kvs (API_REG_PARAMS_PARAM_DATA K) of None \<Rightarrow> Inl DataError | Some v \<Rightarrow> Inr v)) \<and>
   (fst (EconetClient_fetch_sys_params dev (API_REG_PARAMS_DATA_URI K) (client a)) = Inr JNull \<longrightarrow>
      fst (Econet300Api_fetch_reg_params_data K dev a) = Inr (JObj [])) \<and>
   (fst (EconetClient_fetch_sys_params dev (API_REG_PARAMS_DATA_URI K) (client a)) = Inr (JObj kvs) \<longrightarrow>
      fst (Econet300Api_fetch_reg_params_data K dev a) =
        (case map_of kvs (API_REG_PARAMS_DATA_PARAM_DATA K) of None \<Rightarrow> Inr (JObj []) | Some v \<Rightarrow> Inr v)) \<and>
   fst (Econet300Api_fetch_sys_params K dev a) =
     fst (EconetClient_fetch_sys_params dev (API_SYS_PARAMS_URI K) (client a)) \<and>
   fst (Econet300Api_fetch_sys_params K dev a) \<noteq> Inl DataError"
proof (intro conjI impI)
  assume "fst (EconetClient_fetch_sys_params dev (API_REG_PARAMS_URI K) (client a)) = Inr JNull"
  then show "fst (Econet300Api_fetch_reg_params K dev a) = Inl DataError"
    by (simp add: fetch_reg_params_unwrap)
next
  assume "fst (EconetClient_fetch_sys_params dev (API_REG_PARAMS_URI K) (client a)) = Inr (JObj kvs)"
  then show "fst (Econet300Api_fetch_reg_params K dev a) =
        (case map_of kvs (API_REG_PARAMS_PARAM_DATA K) of None \<Rightarrow> Inl DataError | Some v \<Rightarrow> Inr v)"
    by (simp add: fetch_reg_params_unwrap unwrap_obj del: unwrap.simps)
next
  assume "fst (EconetClient_fetch_sys_params dev (API_REG_PARAMS_DATA_URI K) (client a)) = Inr JNull"
  then show "fst (Econet300Api_fetch_reg_params_data K dev a) = Inr (JObj [])"
    by (simp add: fetch_reg_params_data_unwrap)
next
  assume "fst (EconetClient_fetch_sys_params dev (API_REG_PARAMS_DATA_URI K) (client a)) = Inr (JObj kvs)"
  then show "fst (Econet300Api_fetch_reg_params_data K dev a) =
        (case map_of kvs (API_REG_PARAMS_DATA_PARAM_DATA K) of None \<Rightarrow> Inr (JObj []) | Some v \<Rightarrow> Inr v)"
    by (simp add: fetch_reg_params_data_unwrap unwrap_obj del: unwrap.simps split: option.splits)
next
  show "fst (Econet300Api_fetch_sys_params K dev a) =
     fst (EconetClient_fetch_sys_params dev (API_SYS_PARAMS_URI K) (client a))"
    by (simp add: api_fetch_sys_params_eq)
next
  show "fst (Econet300Api_fetch_sys_params K dev a) \<noteq> Inl DataError"
    by (simp add: api_fetch_sys_params_eq client_fetch_no_data_error)
qed

theorem pass_through_reads_witness:
  "fst (EconetClient_fetch_sys_params (dev_status 500) (API_REG_PARAMS_URI sample_const) (client api0)) = Inr JNull \<and>
   fst (Econet300Api_fetch_reg_params sample_const (dev_status 500) api0) = Inl DataError \<and>
   fst (EconetClient_fetch_sys_params (dev_status 500) (API_REG_PARAMS_DATA_URI sample_const) (client api0)) = Inr JNull \<and>
   fst (Econet300Api_fetch_reg_params_data sample_const (dev_status 500) api0) = Inr (JObj []) \<and>
   fst (EconetClient_fetch_sys_params (dev_json reg_params_envelope) (API_REG_PARAMS_URI sample_const) (client api0)) =
     Inr reg_params_envelope \<and>
   fst (Econet300Api_fetch_reg_params sample_const (dev_json reg_params_envelope) api0) =
     Inr (JObj [(''tempCO'', JNum 61)]) \<and>
   fst (EconetClient_fetch_sys_params (dev_json reg_params_envelope) (API_REG_PARAMS_DATA_URI sample_const) (client api0)) =
     Inr reg_params_envelope \<and>
   fst (Econet300Api_fetch_reg_params_data sample_const (dev_json reg_params_envelope) api0) = Inr (JObj [])"
proof -
  let ?kvs = "[(''curr'', JObj [(''tempCO'', JNum 61)])]"
  have a: "fst (EconetClient_fetch_sys_params (dev_status 500) (API_REG_PARAMS_URI sample_const) (client api0)) = Inr JNull"
    "fst (EconetClient_fetch_sys_params (dev_status 500) (API_REG_PARAMS_DATA_URI sample_const) (client api0)) = Inr JNull"
    by (simp_all add: fetch_dev_status)
  have b: "fst (EconetClient_fetch_sys_params (dev_json reg_params_envelope) (API_REG_PARAMS_URI sample_const) (client api0)) = Inr (JObj ?kvs)"
    "fst (EconetClient_fetch_sys_params (dev_json reg_params_envelope) (API_REG_PARAMS_DATA_URI sample_const) (client api0)) = Inr (JObj ?kvs)"
    by (simp_all add: fetch_dev_json reg_params_envelope_def)
  have k: "API_REG_PARAMS_PARAM_DATA sample_const = ''curr''"
    "API_REG_PARAMS_DATA_PARAM_DATA sample_const = ''data''"
    by (simp_all add: sample_const_def)
  show ?thesis
    using a b
      pass_through_reads [of "dev_status 500" sample_const api0 ?kvs]
      pass_through_reads [of "dev_json reg_params_envelope" sample_const api0 ?kvs]
    by (simp add: k reg_params_envelope_def)
qed

section \<open>The limits of a parameter\<close>

lemma ensure_limits_cold:
  "\<not> MemCache_exists (cache a) (API_EDITABLE_PARAMS_LIMITS_DATA K) \<Longrightarrow>
   ensure_limits K dev a =
     (case Econet300Api_fetch_reg_key dev (API_EDITABLE_PARAMS_LIMITS_URI K)
             (Some (API_EDITABLE_PARAMS_LIMITS_DATA K)) a of
        (Inl e, a1) \<Rightarrow> (Inl e, a1)
      | (Inr limits, a1) \<Rightarrow>
          (Inr (), a1\<lparr>cache := (cache a1)(API_EDITABLE_PARAMS_LIMITS_DATA K \<mapsto> limits)\<rparr>))"
  by (simp add: ensure_limits_def MemCache_set_def split: prod.splits sum.splits)

lemma get_param_limits_warm:
  "MemCache_exists (cache a) (API_EDITABLE_PARAMS_LIMITS_DATA K) \<Longrightarrow>
   snd (Econet300Api_get_param_limits K dev param a) = a"
  by (simp add: get_param_limits_state ensure_limits_warm)

lemma get_param_limits_warm_fold:
  "MemCache_exists (cache a) (API_EDITABLE_PARAMS_LIMITS_DATA K) \<Longrightarrow>
   foldl (\<lambda>s q. snd (Econet300Api_get_param_limits K dev q s)) a qs = a"
  by (induction qs) (simp_all add: get_param_limits_warm)

lemma fetch_reg_key_client:
  "client (snd (Econet300Api_fetch_reg_key dev reg (Some k) a)) =
   snd (EconetClient_fetch_sys_params dev reg (client a))"
  by (simp add: fetch_reg_key_unwrap)

lemma get_param_limits_None:
  "ensure_limits K dev a = (Inr (), a') \<Longrightarrow>
   Econet300Api_get_param_limits K dev None a = (Inr None, a')"
  by (simp add: Econet300Api_get_param_limits_def)

lemma get_param_limits_table:
  assumes "ensure_limits K dev a = (Inr (), a')"
    and "MemCache_get (cache a') (API_EDITABLE_PARAMS_LIMITS_DATA K) = JObj tbl"
  shows "Econet300Api_get_param_limits K dev (Some p) a =
     (case map_of tbl p of
        None \<Rightarrow> Inr None
      | Some e \<Rightarrow>
          (case py_getitem e ''min'' of
             Inl x \<Rightarrow> Inl x
           | Inr mn \<Rightarrow>
               (case py_getitem e ''max'' of
                  Inl x \<Rightarrow> Inl x
                | Inr mx \<Rightarrow> Inr (Some (Limits mn mx)))), a')"
proof (cases "map_of tbl p")
  case None
  then have "p \<notin> fst ` set tbl" by (simp add: key_in_obj)
  with assms None show ?thesis by (simp add: Econet300Api_get_param_limits_def)
next
  case (Some e)
  then have "p \<in> fst ` set tbl" by (simp add: key_in_obj)
  with assms Some show ?thesis
    by (simp add: Econet300Api_get_param_limits_def split: sum.splits)
qed

text \<open>
  C5, as stated, fails when the bulk fetch brings no table: with a device that answers
  500 the first call on the cold cache raises \<^verbatim>\<open>DataError\<close> and stores nothing, and the
  second call, for another key, fetches again.
\<close>

theorem limits_fetched_once_counterexample:
  "fst (Econet300Api_get_param_limits sample_const (dev_status 500) (Some ''1280'') api0) =
     Inl DataError \<and>
   \<not> MemCache_exists
       (cache (snd (Econet300Api_get_param_limits sample_const (dev_status 500) (Some ''1280'') api0)))
       (API_EDITABLE_PARAMS_LIMITS_DATA sample_const) \<and>
   fetched (client (snd (Econet300Api_get_param_limits sample_const (dev_status 500) (Some ''1280'') api0))) =
     [''rmCurrentDataParamsEdits''] \<and>
   fetched (client (snd (Econet300Api_get_param_limits sample_const (dev_status 500) (Some ''1281'')
     (snd (Econet300Api_get_param_limits sample_const (dev_status 500) (Some ''1280'') api0))))) =
     [''rmCurrentDataParamsEdits'', ''rmCurrentDataParamsEdits'']"
proof -
  let ?c1 = "client0\<lparr>fetched := [''rmCurrentDataParamsEdits''],
      requests := [''http://boiler/econet/rmCurrentDataParamsEdits'']\<rparr>"
  have k: "API_EDITABLE_PARAMS_LIMITS_DATA sample_const = ''data''"
    "API_EDITABLE_PARAMS_LIMITS_URI sample_const = ''rmCurrentDataParamsEdits''"
    by (simp_all add: sample_const_def)
  have 1: "Econet300Api_get_param_limits sample_const (dev_status 500) (Some ''1280'') api0 =
      (Inl DataError, api0\<lparr>client := ?c1\<rparr>)"
    by (simp add: Econet300Api_get_param_limits_def ensure_limits_def MemCache_exists_def
          fetch_reg_key_unwrap fetch_dev_status k api0_eq client0_eq)
  have 2: "fetched (client (snd (Econet300Api_get_param_limits sample_const (dev_status 500) (Some ''1281'')
      (api0\<lparr>client := ?c1\<rparr>)))) = [''rmCurrentDataParamsEdits'', ''rmCurrentDataParamsEdits'']"
    by (simp add: Econet300Api_get_param_limits_def ensure_limits_def MemCache_exists_def
          fetch_reg_key_unwrap fetch_dev_status k api0_eq client0_eq)
  show ?thesis
    unfolding 1 using 2 by (simp add: MemCache_exists_def api0_eq client0_eq)
qed

text \<open>
  C5, amended. On a cold cache, when the bulk fetch returns the limits table (a JSON
  object under the data key of the envelope), the first call of \<^verbatim>\<open>get_param_limits\<close>
  makes exactly one bulk fetch and stores the table in the cache. It returns \<^verbatim>\<open>None\<close>
  for no key and for a key that the table lacks, and the limits built from \<^verbatim>\<open>"min"\<close> and
  \<^verbatim>\<open>"max"\<close> of the key's entry when the table has the key and the entry has both. Every
  later call, for any key and whatever the device would answer, leaves the whole state
  as it is: no bulk fetch and no request.
\<close>

theorem limits_fetched_once:
  assumes "\<not> MemCache_exists (cache a) (API_EDITABLE_PARAMS_LIMITS_DATA K)"
    and "Econet300Api_fetch_reg_key dev (API_EDITABLE_PARAMS_LIMITS_URI K)
           (Some (API_EDITABLE_PARAMS_LIMITS_DATA K)) a = (Inr (JObj tbl), a1)"
  shows
    "snd (Econet300Api_get_param_limits K dev param a) =
       a1\<lparr>cache := (cache a1)(API_EDITABLE_PARAMS_LIMITS_DATA K \<mapsto> JObj tbl)\<rparr> \<and>
     fetched (client (snd (Econet300Api_get_param_limits K dev param a))) =
       fetched (client a) @ [API_EDITABLE_PARAMS_LIMITS_URI K] \<and>
     MemCache_get (cache (snd (Econet300Api_get_param_limits K dev param a)))
       (API_EDITABLE_PARAMS_LIMITS_DATA K) = JObj tbl \<and>
     (param = None \<longrightarrow> fst (Econet300Api_get_param_limits K dev param a) = Inr None) \<and>
     (param = Some p \<and> p \<notin> fst ` set tbl \<longrightarrow>
        fst (Econet300Api_get_param_limits K dev param a) = Inr None) \<and>
     (param = Some p \<and> map_of tbl p = Some e \<and>
      py_getitem e ''min'' = Inr mn \<and> py_getitem e ''max'' = Inr mx \<longrightarrow>
        fst (Econet300Api_get_param_limits K dev param a) = Inr (Some (Limits mn mx))) \<and>
     snd (Econet300Api_get_param_limits K dev2 param2
            (snd (Econet300Api_get_param_limits K dev param a))) =
       snd (Econet300Api_get_param_limits K dev param a) \<and>
     foldl (\<lambda>s q. snd (Econet300Api_get_param_limits K dev2 q s))
       (snd (Econet300Api_get_param_limits K dev param a)) qs =
       snd (Econet300Api_get_param_limits K dev param a)"
proof -
  let ?a' = "a1\<lparr>cache := (cache a1)(API_EDITABLE_PARAMS_LIMITS_DATA K \<mapsto> JObj tbl)\<rparr>"
  have e: "ensure_limits K dev a = (Inr (), ?a')"
    using assms by (simp add: ensure_limits_cold)
  have s: "snd (Econet300Api_get_param_limits K dev param a) = ?a'"
    by (simp add: get_param_limits_state e)
  have g: "MemCache_get (cache ?a') (API_EDITABLE_PARAMS_LIMITS_DATA K) = JObj tbl"
    by (simp add: MemCache_get_def)
  have w: "MemCache_exists (cache ?a') (API_EDITABLE_PARAMS_LIMITS_DATA K)"
    by (simp add: MemCache_exists_def)
  have "client a1 = snd (EconetClient_fetch_sys_params dev (API_EDITABLE_PARAMS_LIMITS_URI K) (client a))"
    using fetch_reg_key_client [of dev "API_EDITABLE_PARAMS_LIMITS_URI K"
        "API_EDITABLE_PARAMS_LIMITS_DATA K" a] assms(2) by simp
  then have f: "fetched (client ?a') = fetched (client a) @ [API_EDITABLE_PARAMS_LIMITS_URI K]"
    by (simp add: client_fetch_fetched)
  have n: "param = None \<longrightarrow> fst (Econet300Api_get_param_limits K dev param a) = Inr None"
    by (simp add: get_param_limits_None [OF e])
  have t: "param = Some p \<longrightarrow> fst (Econet300Api_get_param_limits K dev param a) =
     (case map_of tbl p of
        None \<Rightarrow> Inr None
      | Some e \<Rightarrow>
          (case py_getitem e ''min'' of
             Inl x \<Rightarrow> Inl x
           | Inr mn \<Rightarrow>
               (case py_getitem e ''max'' of
                  Inl x \<Rightarrow> Inl x
                | Inr mx \<Rightarrow> Inr (Some (Limits mn mx)))))"
    by (simp add: get_param_limits_table [OF e g])
  have t1: "param = Some p \<and> p \<notin> fst ` set tbl \<longrightarrow>
        fst (Econet300Api_get_param_limits K dev param a) = Inr None"
    using t by (auto simp: key_in_obj split: option.splits)
  have t2: "param = Some p \<and> map_of tbl p = Some e \<and>
      py_getitem e ''min'' = Inr mn \<and> py_getitem e ''max'' = Inr mx \<longrightarrow>
        fst (Econet300Api_get_param_limits K dev param a) = Inr (Some (Limits mn mx))"
    using t by simp
  show ?thesis
    unfolding s
    using f g n t1 t2 get_param_limits_warm [OF w, of dev2 param2]
      get_param_limits_warm_fold [OF w, of dev2 qs]
    by (simp only: simp_thms)
qed

theorem limits_fetched_once_witness:
  "\<not> MemCache_exists (cache api0) (API_EDITABLE_PARAMS_LIMITS_DATA sample_const) \<and>
   Econet300Api_fetch_reg_key (dev_json limits_envelope) (API_EDITABLE_PARAMS_LIMITS_URI sample_const)
       (Some (API_EDITABLE_PARAMS_LIMITS_DATA sample_const)) api0 =
     (Inr (JObj [(''1280'', JObj [(''min'', JNum 20), (''max'', JNum 80)])]),
      api0\<lparr>client := client0\<lparr>fetched := [''rmCurrentDataParamsEdits''],
        requests := [''http://boiler/econet/rmCurrentDataParamsEdits'']\<rparr>\<rparr>) \<and>
   fst (Econet300Api_get_param_limits sample_const (dev_json limits_envelope) (Some ''1280'') api0) =
     Inr (Some (Limits (JNum 20) (JNum 80))) \<and>
   fetched (client (snd (Econet300Api_get_param_limits sample_const (dev_json limits_envelope)
       (Some ''1280'') api0))) = [''rmCurrentDataParamsEdits''] \<and>
   snd (Econet300Api_get_param_limits sample_const (dev_status 500) (Some ''1281'')
       (snd (Econet300Api_get_param_limits sample_const (dev_json limits_envelope) (Some ''1280'') api0))) =
     snd (Econet300Api_get_param_limits sample_const (dev_json limits_envelope) (Some ''1280'') api0)"
proof -
  let ?a1 = "api0\<lparr>client := client0\<lparr>fetched := [''rmCurrentDataParamsEdits''],
        requests := [''http://boiler/econet/rmCurrentDataParamsEdits'']\<rparr>\<rparr>"
  let ?e = "JObj [(''min'', JNum 20), (''max'', JNum 80)]"
  have k: "API_EDITABLE_PARAMS_LIMITS_DATA sample_const = ''data''"
    "API_EDITABLE_PARAMS_LIMITS_URI sample_const = ''rmCurrentDataParamsEdits''"
    by (simp_all add: sample_const_def)
  have c: "\<not> MemCache_exists (cache api0) (API_EDITABLE_PARAMS_LIMITS_DATA sample_const)"
    by (simp add: MemCache_exists_def api0_eq)
  have f: "Econet300Api_fetch_reg_key (dev_json limits_envelope) (API_EDITABLE_PARAMS_LIMITS_URI sample_const)
       (Some (API_EDITABLE_PARAMS_LIMITS_DATA sample_const)) api0 = (Inr (JObj [(''1280'', ?e)]), ?a1)"
    by (simp add: fetch_reg_key_unwrap fetch_dev_json k limits_envelope_def api0_eq client0_eq)
  have m: "py_getitem ?e ''min'' = Inr (JNum 20)" "py_getitem ?e ''max'' = Inr (JNum 80)"
    by simp_all
  have z: "fetched (client api0) = []"
    by (simp add: api0_eq client0_eq)
  note T = limits_fetched_once [OF c f, of "Some ''1280''" "''1280''" ?e "JNum 20" "JNum 80"
        "dev_status 500" "Some ''1281''" "[]"]
  have t1: "fetched (client (snd (Econet300Api_get_param_limits sample_const (dev_json limits_envelope)
       (Some ''1280'') api0))) = fetched (client api0) @ [API_EDITABLE_PARAMS_LIMITS_URI sample_const]"
    using T by blast
  have t2: "fst (Econet300Api_get_param_limits sample_const (dev_json limits_envelope) (Some ''1280'') api0) =
     Inr (Some (Limits (JNum 20) (JNum 80)))"
    using T m by simp
  have t3: "snd (Econet300Api_get_param_limits sample_const (dev_status 500) (Some ''1281'')
       (snd (Econet300Api_get_param_limits sample_const (dev_json limits_envelope) (Some ''1280'') api0))) =
     snd (Econet300Api_get_param_limits sample_const (dev_json limits_envelope) (Some ''1280'') api0)"
    using T by blast
  show ?thesis
    using c f t1 t2 t3 z by (simp add: k)
qed

section \<open>Failures at the boundary of the facade\<close>


























section \<open>The key check of the limits comes after the fetch\<close>

lemma get_param_limits_cold_client:
  assumes "\<not> MemCache_exists (cache a) (API_EDITABLE_PARAMS_LIMITS_DATA K)"
  shows "client (snd (Econet300Api_get_param_limits K dev param a)) =
         snd (EconetClient_fetch_sys_params dev (API_EDITABLE_PARAMS_LIMITS_URI K) (client a))"
proof (cases "Econet300Api_fetch_reg_key dev (API_EDITABLE_PARAMS_LIMITS_URI K)
           (Some (API_EDITABLE_PARAMS_LIMITS_DATA K)) a")
  case (Pair r a1)
  then have "client a1 = snd (EconetClient_fetch_sys_params dev (API_EDITABLE_PARAMS_LIMITS_URI K) (client a))"
    using fetch_reg_key_client [of dev "API_EDITABLE_PARAMS_LIMITS_URI K"
        "API_EDITABLE_PARAMS_LIMITS_DATA K" a] by simp
  with Pair assms show ?thesis
    by (cases r) (simp_all add: get_param_limits_state ensure_limits_cold)
qed

text \<open>
  C10, as stated, fails where the bulk fetch brings nothing: on the cold cache, with no
  key and a device that answers 500, the call raises \<^verbatim>\<open>DataError\<close>; nothing is stored
  in the cache and \<^verbatim>\<open>None\<close> is not returned.
\<close>

theorem limits_fetch_precedes_key_check_counterexample:
  "\<not> MemCache_exists (cache api0) (API_EDITABLE_PARAMS_LIMITS_DATA sample_const) \<and>
   fst (Econet300Api_get_param_limits sample_const (dev_status 500) None api0) = Inl DataError \<and>
   \<not> MemCache_exists
       (cache (snd (Econet300Api_get_param_limits sample_const (dev_status 500) None api0)))
       (API_EDITABLE_PARAMS_LIMITS_DATA sample_const) \<and>
   requests (client (snd (Econet300Api_get_param_limits sample_const (dev_status 500) None api0))) =
     [''http://boiler/econet/rmCurrentDataParamsEdits'']"
proof -
  have k: "API_EDITABLE_PARAMS_LIMITS_DATA sample_const = ''data''"
    "API_EDITABLE_PARAMS_LIMITS_URI sample_const = ''rmCurrentDataParamsEdits''"
    by (simp_all add: sample_const_def)
  have 1: "Econet300Api_get_param_limits sample_const (dev_status 500) None api0 =
      (Inl DataError, api0\<lparr>client := client0\<lparr>fetched := [''rmCurrentDataParamsEdits''],
        requests := [''http://boiler/econet/rmCurrentDataParamsEdits'']\<rparr>\<rparr>)"
    by (simp add: Econet300Api_get_param_limits_def ensure_limits_def MemCache_exists_def
          fetch_reg_key_unwrap fetch_dev_status k api0_eq client0_eq)
  show ?thesis
    unfolding 1 by (simp add: MemCache_exists_def api0_eq client0_eq)
qed

text \<open>
  C10, amended. On a cold cache \<^verbatim>\<open>get_param_limits\<close> with no key (\<^verbatim>\<open>None\<close>, which is what
  \<^verbatim>\<open>map_param\<close> gives for an unmapped name) performs the bulk fetch before it looks at the
  key: one call of the client's fetch for the limits registry, with one to five requests
  for its URL. When the fetch returns a result, the result is stored in the cache and
  \<^verbatim>\<open>None\<close> is returned. When the fetch raises, the call raises the same exception and the
  cache is as it was. So whenever the call returns, it returns \<^verbatim>\<open>None\<close> with the limits
  cached. \<^verbatim>\<open>set_param\<close> with no key, in contrast, changes nothing and sends nothing.
\<close>

theorem limits_fetch_precedes_key_check:
  assumes "\<not> MemCache_exists (cache a) (API_EDITABLE_PARAMS_LIMITS_DATA K)"
  shows
    "(\<exists>k. 1 \<le> k \<and> k \<le> 5 \<and>
        requests (client (snd (Econet300Api_get_param_limits K dev None a))) =
          requests (client a) @
          replicate k (host (client a) @ ''/econet/'' @ API_EDITABLE_PARAMS_LIMITS_URI K)) \<and>
     fetched (client (snd (Econet300Api_get_param_limits K dev None a))) =
       fetched (client a) @ [API_EDITABLE_PARAMS_LIMITS_URI K] \<and>
     (Econet300Api_fetch_reg_key dev (API_EDITABLE_PARAMS_LIMITS_URI K)
          (Some (API_EDITABLE_PARAMS_LIMITS_DATA K)) a = (Inr t, a1) \<longrightarrow>
        Econet300Api_get_param_limits K dev None a =
          (Inr None, a1\<lparr>cache := (cache a1)(API_EDITABLE_PARAMS_LIMITS_DATA K \<mapsto> t)\<rparr>)) \<and>
     (Econet300Api_fetch_reg_key dev (API_EDITABLE_PARAMS_LIMITS_URI K)
          (Some (API_EDITABLE_PARAMS_LIMITS_DATA K)) a = (Inl e, a1) \<longrightarrow>
        Econet300Api_get_param_limits K dev None a = (Inl e, a1) \<and> cache a1 = cache a) \<and>
     (fst (Econet300Api_get_param_limits K dev None a) = Inr r \<longrightarrow>
        r = None \<and>
        MemCache_exists (cache (snd (Econet300Api_get_param_limits K dev None a)))
          (API_EDITABLE_PARAMS_LIMITS_DATA K)) \<and>
     (param_name \<notin> set (map fst (EDITABLE_PARAMS_MAPPING_TABLE K)) \<longrightarrow>
        Econet300Api_get_param_limits K dev (map_param K param_name) a =
          Econet300Api_get_param_limits K dev None a) \<and>
     Econet300Api_set_param dev str_of None v a = (Inr False, a)"
proof (intro conjI impI)
  show "\<exists>k. 1 \<le> k \<and> k \<le> 5 \<and>
        requests (client (snd (Econet300Api_get_param_limits K dev None a))) =
          requests (client a) @
          replicate k (host (client a) @ ''/econet/'' @ API_EDITABLE_PARAMS_LIMITS_URI K)"
    unfolding get_param_limits_cold_client [OF assms] by (rule client_fetch_requests)
next
  show "fetched (client (snd (Econet300Api_get_param_limits K dev None a))) =
       fetched (client a) @ [API_EDITABLE_PARAMS_LIMITS_URI K]"
    unfolding get_param_limits_cold_client [OF assms] by (rule client_fetch_fetched)
next
  assume "Econet300Api_fetch_reg_key dev (API_EDITABLE_PARAMS_LIMITS_URI K)
          (Some (API_EDITABLE_PARAMS_LIMITS_DATA K)) a = (Inr t, a1)"
  then have "ensure_limits K dev a =
      (Inr (), a1\<lparr>cache := (cache a1)(API_EDITABLE_PARAMS_LIMITS_DATA K \<mapsto> t)\<rparr>)"
    using assms by (simp add: ensure_limits_cold)
  then show "Econet300Api_get_param_limits K dev None a =
          (Inr None, a1\<lparr>cache := (cache a1)(API_EDITABLE_PARAMS_LIMITS_DATA K \<mapsto> t)\<rparr>)"
    by (rule get_param_limits_None)
next
  assume f: "Econet300Api_fetch_reg_key dev (API_EDITABLE_PARAMS_LIMITS_URI K)
          (Some (API_EDITABLE_PARAMS_LIMITS_DATA K)) a = (Inl e, a1)"
  then have "ensure_limits K dev a = (Inl e, a1)"
    using assms by (simp add: ensure_limits_cold)
  then show "Econet300Api_get_param_limits K dev None a = (Inl e, a1)"
    by (simp add: Econet300Api_get_param_limits_def)
  show "cache a1 = cache a"
    using fetch_reg_key_cache [of dev "API_EDITABLE_PARAMS_LIMITS_URI K"
        "Some (API_EDITABLE_PARAMS_LIMITS_DATA K)" a] f by simp
next
  assume r: "fst (Econet300Api_get_param_limits K dev None a) = Inr r"
  obtain x a1 where f: "Econet300Api_fetch_reg_key dev (API_EDITABLE_PARAMS_LIMITS_URI K)
          (Some (API_EDITABLE_PARAMS_LIMITS_DATA K)) a = (x, a1)"
    by (cases "Econet300Api_fetch_reg_key dev (API_EDITABLE_PARAMS_LIMITS_URI K)
          (Some (API_EDITABLE_PARAMS_LIMITS_DATA K)) a")
  show "r = None"
    using r f assms
    by (cases x) (simp_all add: Econet300Api_get_param_limits_def ensure_limits_cold)
  show "MemCache_exists (cache (snd (Econet300Api_get_param_limits K dev None a)))
          (API_EDITABLE_PARAMS_LIMITS_DATA K)"
    using r f assms
    by (cases x) (simp_all add: Econet300Api_get_param_limits_def ensure_limits_cold MemCache_exists_def)
next
  assume "param_name \<notin> set (map fst (EDITABLE_PARAMS_MAPPING_TABLE K))"
  then show "Econet300Api_get_param_limits K dev (map_param K param_name) a =
          Econet300Api_get_param_limits K dev None a"
    by (simp add: map_param_def)
next
  show "Econet300Api_set_param dev str_of None v a = (Inr False, a)"
    by (rule set_param_None)
qed

theorem limits_fetch_precedes_key_check_witness:
  "\<not> MemCache_exists (cache api0) (API_EDITABLE_PARAMS_LIMITS_DATA sample_const) \<and>
   ''pumpSet'' \<notin> set (map fst (EDITABLE_PARAMS_MAPPING_TABLE sample_const)) \<and>
   Econet300Api_get_param_limits sample_const (dev_json limits_envelope)
       (map_param sample_const ''pumpSet'') api0 =
     (Inr None,
      api0\<lparr>client := client0\<lparr>fetched := [''rmCurrentDataParamsEdits''],
              requests := [''http://boiler/econet/rmCurrentDataParamsEdits'']\<rparr>,
            cache := (cache api0)(''data'' \<mapsto> JObj [(''1280'', JObj [(''min'', JNum 20), (''max'', JNum 80)])])\<rparr>) \<and>
   Econet300Api_get_param_limits sample_const (dev_status 500) None api0 =
     (Inl DataError,
      api0\<lparr>client := client0\<lparr>fetched := [''rmCurrentDataParamsEdits''],
              requests := [''http://boiler/econet/rmCurrentDataParamsEdits'']\<rparr>\<rparr>) \<and>
   Econet300Api_set_param (dev_json limits_envelope) str_of_sample None (JStr ''55'') api0 =
     (Inr False, api0)"
proof -
  let ?a1 = "api0\<lparr>client := client0\<lparr>fetched := [''rmCurrentDataParamsEdits''],
        requests := [''http://boiler/econet/rmCurrentDataParamsEdits'']\<rparr>\<rparr>"
  let ?t = "JObj [(''1280'', JObj [(''min'', JNum 20), (''max'', JNum 80)])]"
  have k: "API_EDITABLE_PARAMS_LIMITS_DATA sample_const = ''data''"
    "API_EDITABLE_PARAMS_LIMITS_URI sample_const = ''rmCurrentDataParamsEdits''"
    by (simp_all add: sample_const_def)
  have c: "\<not> MemCache_exists (cache api0) (API_EDITABLE_PARAMS_LIMITS_DATA sample_const)"
    by (simp add: MemCache_exists_def api0_eq)
  have h: "''pumpSet'' \<notin> set (map fst (EDITABLE_PARAMS_MAPPING_TABLE sample_const))"
    by (simp add: sample_const_def)
  have f: "Econet300Api_fetch_reg_key (dev_json limits_envelope) (API_EDITABLE_PARAMS_LIMITS_URI sample_const)
       (Some (API_EDITABLE_PARAMS_LIMITS_DATA sample_const)) api0 = (Inr ?t, ?a1)"
    by (simp add: fetch_reg_key_unwrap fetch_dev_json k limits_envelope_def api0_eq client0_eq)
  have g: "Econet300Api_fetch_reg_key (dev_status 500) (API_EDITABLE_PARAMS_LIMITS_URI sample_const)
       (Some (API_EDITABLE_PARAMS_LIMITS_DATA sample_const)) api0 = (Inl DataError, ?a1)"
    by (simp add: fetch_reg_key_unwrap fetch_dev_status k api0_eq client0_eq)
  show ?thesis
    using c h f g
      limits_fetch_precedes_key_check [OF c, of "dev_json limits_envelope" ?t ?a1 DataError None
        "''pumpSet''" str_of_sample "JStr ''55''"]
      limits_fetch_precedes_key_check [OF c, of "dev_status 500" ?t ?a1 DataError None
        "''pumpSet''" str_of_sample "JStr ''55''"]
    by (simp add: k)
qed

end
